theory Spec2Isabelle
  imports Complex_Main "HOL-Library.AList"
begin

section \<open>JavaScript values used by the harmonizer\<close>

text \<open>
  Numbers: the program's fractional numbers (energy, danceability, confidence, the raw
  AcousticBrainz tempo, a draw of \<^verbatim>\<open>Math.random()\<close>) are modelled as exact
  rationals, its integral numbers (rounded tempo, wheel slots) as integers. IEEE rounding
  and \<^verbatim>\<open>NaN\<close> payloads are outside the model, except for the \<^verbatim>\<open>NaN\<close> that
  \<^verbatim>\<open>parseInt\<close> returns, which is the value \<open>None\<close> of \<open>int option\<close>.
  Strings are lists of ASCII characters. \<^verbatim>\<open>null\<close> and \<^verbatim>\<open>undefined\<close> are \<open>None\<close>.
\<close>

subsection \<open>Number to string, string to number\<close>

text \<open>\<^verbatim>\<open>`${n}`\<close> for an integral number: decimal digits, a minus sign when negative.\<close>

fun nat_to_string :: "nat \<Rightarrow> string" where
  "nat_to_string n =
     (if n < 10 then [''0123456789'' ! n]
      else nat_to_string (n div 10) @ [''0123456789'' ! (n mod 10)])"

declare nat_to_string.simps [simp del]

definition int_to_string :: "int \<Rightarrow> string" where
  "int_to_string i = (if i < 0 then CHR ''-'' # nat_to_string (nat (- i)) else nat_to_string (nat i))"

text \<open>\<^verbatim>\<open>`${x}`\<close> where \<open>x\<close> may be \<^verbatim>\<open>NaN\<close>.\<close>

definition number_to_string :: "int option \<Rightarrow> string" where
  "number_to_string x = (case x of None \<Rightarrow> ''NaN'' | Some i \<Rightarrow> int_to_string i)"

definition is_space :: "char \<Rightarrow> bool" where
  "is_space c = (c \<in> set [CHR '' '', CHR 0x09, CHR 0x0A, CHR 0x0B, CHR 0x0C, CHR 0x0D])"

definition digit_value :: "char \<Rightarrow> nat option" where
  "digit_value c = map_of (zip ''0123456789abcdef'' [0 ..< 16] @ zip ''ABCDEF'' [10 ..< 16]) c"

definition is_digit :: "nat \<Rightarrow> char \<Rightarrow> bool" where
  "is_digit radix c = (case digit_value c of None \<Rightarrow> False | Some d \<Rightarrow> d < radix)"

definition digits_value :: "nat \<Rightarrow> string \<Rightarrow> nat" where
  "digits_value radix ds = foldl (\<lambda>a c. a * radix + the (digit_value c)) 0 ds"

text \<open>
  \<^verbatim>\<open>parseInt(s)\<close> with no radix argument: leading white space is skipped, one sign is
  read, a \<^verbatim>\<open>0x\<close> prefix selects radix 16, then the longest run of digits is read; with
  no digit the result is \<^verbatim>\<open>NaN\<close>.
\<close>

definition parseInt :: "string \<Rightarrow> int option" where
  "parseInt s =
     (let t = dropWhile is_space s;
          neg = (t \<noteq> [] \<and> hd t = CHR ''-'');
          u = (if t \<noteq> [] \<and> (hd t = CHR ''-'' \<or> hd t = CHR ''+'') then tl t else t);
          hex = (take 2 u = ''0x'' \<or> take 2 u = ''0X'');
          radix = (if hex then 16 else 10);
          ds = takeWhile (is_digit radix) (if hex then drop 2 u else u)
      in if ds = [] then None
         else Some ((if neg then - 1 else 1) * int (digits_value radix ds)))"

section \<open>Key-circle model\<close>

text \<open>
  The two tables \<^verbatim>\<open>CAMELOT_WHEEL\<close> and \<^verbatim>\<open>CAMELOT_WHEEL_MINOR\<close>, and
  \<^verbatim>\<open>KEY_NAMES\<close>: object literals keyed by 0..11.
\<close>

definition CAMELOT_WHEEL :: "(nat \<times> string) list" where
  "CAMELOT_WHEEL =
     [(0, ''1B''), (1, ''8B''), (2, ''3B''), (3, ''10B''), (4, ''5B''), (5, ''12B''),
      (6, ''7B''), (7, ''2B''), (8, ''9B''), (9, ''4B''), (10, ''11B''), (11, ''6B'')]"

definition CAMELOT_WHEEL_MINOR :: "(nat \<times> string) list" where
  "CAMELOT_WHEEL_MINOR =
     [(0, ''8A''), (1, ''3A''), (2, ''10A''), (3, ''5A''), (4, ''12A''), (5, ''7A''),
      (6, ''2A''), (7, ''9A''), (8, ''4A''), (9, ''11A''), (10, ''6A''), (11, ''1A'')]"

definition KEY_NAMES :: "(nat \<times> string) list" where
  "KEY_NAMES =
     [(0, ''C''), (1, ''C#/Db''), (2, ''D''), (3, ''D#/Eb''), (4, ''E''), (5, ''F''),
      (6, ''F#/Gb''), (7, ''G''), (8, ''G#/Ab''), (9, ''A''), (10, ''A#/Bb''), (11, ''B'')]"

text \<open>
  A resolved key is a number, or (see \<open>mapAcousticBrainzKey\<close>) an object inherited
  from \<^verbatim>\<open>Object.prototype\<close>. Used as a property name of one of the tables, an object
  finds nothing.
\<close>

datatype keyval = KNum nat | KObj

definition table_get :: "(nat \<times> string) list \<Rightarrow> keyval \<Rightarrow> string option" where
  "table_get tbl key = (case key of KNum k \<Rightarrow> map_of tbl k | KObj \<Rightarrow> None)"

text \<open>\<^verbatim>\<open>x || 'Unknown'\<close> on a string or \<^verbatim>\<open>undefined\<close>: the empty string is falsy too.\<close>

definition or_unknown :: "string option \<Rightarrow> string" where
  "or_unknown x = (case x of None \<Rightarrow> ''Unknown'' | Some s \<Rightarrow> if s = [] then ''Unknown'' else s)"

text \<open>\<^verbatim>\<open>getCamelotKey(key, mode)\<close>: \<^verbatim>\<open>mode === 1\<close> selects the major table, any other
  mode (0, \<^verbatim>\<open>null\<close>) the minor one.\<close>

definition getCamelotKey :: "keyval \<Rightarrow> nat option \<Rightarrow> string" where
  "getCamelotKey key mode =
     (if mode = Some 1 then or_unknown (table_get CAMELOT_WHEEL key)
      else or_unknown (table_get CAMELOT_WHEEL_MINOR key))"

text \<open>
  \<^verbatim>\<open>getHarmonicCompatibility(camelotKey)\<close>. \<open>number\<close> is \<open>None\<close> when
  \<^verbatim>\<open>parseInt\<close> gives \<^verbatim>\<open>NaN\<close>; every comparison with \<^verbatim>\<open>NaN\<close> is false and every
  sum with it is \<^verbatim>\<open>NaN\<close>. \<^verbatim>\<open>slice(-1)\<close> is the last character.
\<close>

definition getHarmonicCompatibility :: "string \<Rightarrow> string list" where
  "getHarmonicCompatibility camelotKey =
     (if camelotKey = [] \<or> camelotKey = ''Unknown'' then []
      else
        let number = parseInt camelotKey;
            letter = [last camelotKey];
            nextNum = (if number = Some 12 then Some 1 else map_option (\<lambda>n. n + 1) number);
            prevNum = (if number = Some 1 then Some 12 else map_option (\<lambda>n. n - 1) number);
            oppositeLetter = (if letter = ''A'' then ''B'' else ''A'');
            fourthUp = map_option (\<lambda>n. if n + 7 > 12 then n + 7 - 12 else n + 7) number;
            fifthUp = map_option (\<lambda>n. if n + 5 > 12 then n + 5 - 12 else n + 5) number;
            energyBoost = (if nextNum = Some 13 then Some 1 else nextNum);
            energyDrop = (if prevNum = Some 0 then Some 12 else prevNum)
        in [camelotKey,
            number_to_string nextNum @ letter,
            number_to_string prevNum @ letter,
            number_to_string number @ oppositeLetter,
            number_to_string fourthUp @ letter,
            number_to_string fifthUp @ letter,
            number_to_string energyBoost @ oppositeLetter,
            number_to_string energyDrop @ oppositeLetter])"

text \<open>
  The 24 wheel positions: slot 1..12, letter A (minor) or B (major), written as the
  program writes them.
\<close>

definition wheel_position :: "nat \<Rightarrow> char \<Rightarrow> string" where
  "wheel_position slot letter = nat_to_string slot @ [letter]"

definition wheel_positions :: "string list" where
  "wheel_positions = concat (map (\<lambda>slot. [wheel_position slot CHR ''A'', wheel_position slot CHR ''B'']) [1 ..< 13])"


text \<open>
  The spec's circle arithmetic (slots 1..12, "modulo 12 on a 1-indexed circle") and the
  opposite polarity, to compare the program's wrap-around with.
\<close>

definition circle_slot :: "int \<Rightarrow> nat" where
  "circle_slot i = nat ((i - 1) mod 12) + 1"

definition opposite_letter :: "char \<Rightarrow> char" where
  "opposite_letter l = (if l = CHR ''A'' then CHR ''B'' else CHR ''A'')"

definition valid_keys :: "(nat \<times> char) list" where
  "valid_keys = List.product [1 ..< 13] ''AB''"

definition slot_in_range :: "string \<Rightarrow> bool" where
  "slot_in_range e = (case parseInt e of None \<Rightarrow> False | Some n \<Rightarrow> 1 \<le> n \<and> n \<le> 12)"

text \<open>
  The compatibility set as the spec words it: a member is the position itself, a
  same-polarity neighbour, the opposite-polarity twin, or a position of either polarity
  5 or 7 slots away in either direction.
\<close>

definition spec_compatible :: "nat \<Rightarrow> char \<Rightarrow> string \<Rightarrow> bool" where
  "spec_compatible n l e =
     (e = wheel_position n l \<or>
      e = wheel_position (circle_slot (int n + 1)) l \<or>
      e = wheel_position (circle_slot (int n - 1)) l \<or>
      e = wheel_position n (opposite_letter l) \<or>
      list_ex (\<lambda>d. list_ex (\<lambda>p. e = wheel_position (circle_slot (int n + d)) p) ''AB'')
        [5, - 5, 7, - 7])"

section \<open>Source adapters\<close>

text \<open>
  What \<^verbatim>\<open>getAlternativeAudioFeatures\<close> holds for one adapter once its promise has
  settled behind \<^verbatim>\<open>.catch(e => ({ error: e.message }))\<close>: the object
  \<^verbatim>\<open>{ error: message }\<close> (every \<^verbatim>\<open>Error\<close> the adapters throw has a non-empty,
  hence truthy, message), or the adapter's data object, which has no \<^verbatim>\<open>error\<close>
  property. Only the fields that \<^verbatim>\<open>combineAudioFeatures\<close> reads are kept.
\<close>

datatype 'a source_result = Failed string | Data 'a

record lastfm_data =
  lf_estimatedEnergy :: "rat option"

record acousticbrainz_data =
  ab_bpm :: "rat option"
  ab_key :: "string option"
  ab_mode :: "string option"
  ab_energy :: "rat option"
  ab_danceability :: "rat option"

record beatport_data =
  bp_bpm :: "int option"
  bp_key :: "nat option"

text \<open>\<^verbatim>\<open>data && !data.error\<close>\<close>

definition succeeded :: "'a source_result \<Rightarrow> bool" where
  "succeeded r = (case r of Failed _ \<Rightarrow> False | Data _ \<Rightarrow> True)"

text \<open>A number used as a condition: \<^verbatim>\<open>null\<close> and 0 are falsy. The result is the
  truthy value, if there is one.\<close>

definition truthy :: "'a::zero option \<Rightarrow> 'a option" where
  "truthy x = (case x of None \<Rightarrow> None | Some v \<Rightarrow> if v = 0 then None else Some v)"

text \<open>\<^verbatim>\<open>Math.round\<close>: to the nearest integer, halves upwards.\<close>

definition Math_round :: "rat \<Rightarrow> int" where
  "Math_round x = \<lfloor>x + 1 / 2\<rfloor>"

text \<open>
  \<^verbatim>\<open>estimateBeatportData\<close> and the success path of \<^verbatim>\<open>getBeatportData\<close>. The three
  calls of \<^verbatim>\<open>Math.random()\<close> are the arguments \<open>r1\<close>, \<open>r2\<close>, \<open>r3\<close> (each in
  \<open>[0, 1)\<close>). The \<^verbatim>\<open>default\<close> branch of the \<^verbatim>\<open>switch\<close> is taken for an index
  outside the array.
\<close>

definition genres :: "string list" where
  "genres = [''house'', ''techno'', ''trance'', ''drum and bass'', ''dubstep'']"

definition estimateBeatportData :: "rat \<Rightarrow> rat \<Rightarrow> rat \<Rightarrow> int \<times> nat \<times> string option" where
  "estimateBeatportData r1 r2 r3 =
     (let g = \<lfloor>r1 * 5\<rfloor>;
          randomGenre = (if 0 \<le> g \<and> g < 5 then Some (genres ! nat g) else None);
          estimatedBpm =
            (if randomGenre = Some ''house'' then 120 + \<lfloor>r2 * 8\<rfloor>
             else if randomGenre = Some ''techno'' then 125 + \<lfloor>r2 * 10\<rfloor>
             else if randomGenre = Some ''trance'' then 128 + \<lfloor>r2 * 8\<rfloor>
             else if randomGenre = Some ''drum and bass'' then 170 + \<lfloor>r2 * 10\<rfloor>
             else if randomGenre = Some ''dubstep'' then 140 + \<lfloor>r2 * 10\<rfloor>
             else 120 + \<lfloor>r2 * 20\<rfloor>);
          estimatedKey = nat \<lfloor>r3 * 12\<rfloor>
      in (estimatedBpm, estimatedKey, randomGenre))"

definition getBeatportData_estimate :: "rat \<Rightarrow> rat \<Rightarrow> rat \<Rightarrow> beatport_data" where
  "getBeatportData_estimate r1 r2 r3 =
     (case estimateBeatportData r1 r2 r3 of
        (bpm, key, genre) \<Rightarrow> \<lparr>bp_bpm = Some bpm, bp_key = Some key\<rparr>)"

section \<open>Feature reconciler\<close>

text \<open>
  \<^verbatim>\<open>mapAcousticBrainzKey\<close>. A name that \<^verbatim>\<open>keyMap\<close> does not own but inherits from
  \<^verbatim>\<open>Object.prototype\<close> is not \<^verbatim>\<open>undefined\<close> either: the inherited object is
  returned. \<open>r\<close> is the draw of \<^verbatim>\<open>Math.random()\<close>.
\<close>

definition keyMap :: "(string \<times> nat) list" where
  "keyMap =
     [(''C'', 0), (''C#'', 1), (''Db'', 1), (''D'', 2), (''D#'', 3), (''Eb'', 3),
      (''E'', 4), (''F'', 5), (''F#'', 6), (''Gb'', 6), (''G'', 7), (''G#'', 8),
      (''Ab'', 8), (''A'', 9), (''A#'', 10), (''Bb'', 10), (''B'', 11)]"

definition object_prototype_names :: "string list" where
  "object_prototype_names =
     [''constructor'', ''hasOwnProperty'', ''isPrototypeOf'', ''propertyIsEnumerable'',
      ''toLocaleString'', ''toString'', ''valueOf'', ''__proto__'',
      ''__defineGetter__'', ''__defineSetter__'', ''__lookupGetter__'', ''__lookupSetter__'']"

definition mapAcousticBrainzKey :: "rat \<Rightarrow> string \<Rightarrow> keyval" where
  "mapAcousticBrainzKey r abKey =
     (case map_of keyMap abKey of
        Some k \<Rightarrow> KNum k
      | None \<Rightarrow> if abKey \<in> set object_prototype_names then KObj else KNum (nat \<lfloor>r * 12\<rfloor>))"

definition mapAcousticBrainzMode :: "rat \<Rightarrow> string option \<Rightarrow> nat" where
  "mapAcousticBrainzMode r abMode =
     (if abMode = Some ''major'' then 1
      else if abMode = Some ''minor'' then 0
      else nat (Math_round r))"

record combined =
  c_bpm :: "int option"
  c_key :: "keyval option"
  c_mode :: "nat option"
  c_energy :: "rat option"
  c_danceability :: "rat option"
  c_confidence :: rat

text \<open>\<^verbatim>\<open>!combined.key\<close> is true for \<^verbatim>\<open>null\<close> and for the number 0 (the key C).\<close>

definition key_falsy :: "keyval option \<Rightarrow> bool" where
  "key_falsy k = (k = None \<or> k = Some (KNum 0))"

text \<open>
  \<^verbatim>\<open>combineAudioFeatures\<close>, one definition for each of its three blocks. The state
  threaded through is \<open>(combined, sources, totalConfidence)\<close>.
\<close>

type_synonym merge_state = "combined \<times> nat \<times> rat"

definition merge_acousticbrainz ::
  "rat \<Rightarrow> rat \<Rightarrow> acousticbrainz_data source_result \<Rightarrow> merge_state \<Rightarrow> merge_state" where
  "merge_acousticbrainz rkey rmode acousticbrainzData st =
     (case st of (c, sources, totalConfidence) \<Rightarrow>
      (case acousticbrainzData of
         Failed _ \<Rightarrow> st
       | Data d \<Rightarrow>
           let (c1, total1) =
                 (case truthy (ab_bpm d) of
                    Some b \<Rightarrow> (c\<lparr>c_bpm := Some (Math_round b)\<rparr>, totalConfidence + 8 / 10)
                  | None \<Rightarrow> (c, totalConfidence));
               c2 = (case ab_key d of
                       Some k \<Rightarrow> c1\<lparr>c_key := Some (mapAcousticBrainzKey rkey k),
                                     c_mode := Some (mapAcousticBrainzMode rmode (ab_mode d))\<rparr>
                     | None \<Rightarrow> c1);
               c3 = (case truthy (ab_energy d) of
                       Some e \<Rightarrow> c2\<lparr>c_energy := Some (min 1 e)\<rparr>
                     | None \<Rightarrow> c2);
               c4 = (case truthy (ab_danceability d) of
                       Some x \<Rightarrow> c3\<lparr>c_danceability := Some x\<rparr>
                     | None \<Rightarrow> c3)
           in (c4, sources + 1, total1)))"

definition merge_beatport :: "beatport_data source_result \<Rightarrow> merge_state \<Rightarrow> merge_state" where
  "merge_beatport beatportData st =
     (case st of (c, sources, totalConfidence) \<Rightarrow>
      (case beatportData of
         Failed _ \<Rightarrow> st
       | Data d \<Rightarrow>
           if truthy (c_bpm c) \<noteq> None then st
           else
             let (c1, total1) =
                   (case truthy (bp_bpm d) of
                      Some b \<Rightarrow> (c\<lparr>c_bpm := Some b\<rparr>, totalConfidence + 3 / 10)
                    | None \<Rightarrow> (c, totalConfidence));
                 c2 = (case truthy (bp_key d) of
                         Some k \<Rightarrow> if key_falsy (c_key c1) then c1\<lparr>c_key := Some (KNum k)\<rparr> else c1
                       | None \<Rightarrow> c1)
             in (c2, sources + 1, total1)))"

definition merge_lastfm :: "lastfm_data source_result \<Rightarrow> merge_state \<Rightarrow> merge_state" where
  "merge_lastfm lastfmData st =
     (case st of (c, sources, totalConfidence) \<Rightarrow>
      (case lastfmData of
         Failed _ \<Rightarrow> st
       | Data d \<Rightarrow>
           let (c1, total1) =
                 (case truthy (lf_estimatedEnergy d) of
                    Some e \<Rightarrow>
                      if truthy (c_energy c) = None
                      then (c\<lparr>c_energy := Some e\<rparr>, totalConfidence + 2 / 10)
                      else (c, totalConfidence)
                  | None \<Rightarrow> (c, totalConfidence))
           in (c1, sources + 1, total1)))"

definition combined_init :: combined where
  "combined_init =
     \<lparr>c_bpm = None, c_key = None, c_mode = None, c_energy = None, c_danceability = None,
      c_confidence = 0\<rparr>"

definition combineAudioFeatures ::
  "rat \<Rightarrow> rat \<Rightarrow> lastfm_data source_result \<Rightarrow> acousticbrainz_data source_result \<Rightarrow>
   beatport_data source_result \<Rightarrow> combined" where
  "combineAudioFeatures rkey rmode lastfmData acousticbrainzData beatportData =
     (case merge_lastfm lastfmData
             (merge_beatport beatportData
               (merge_acousticbrainz rkey rmode acousticbrainzData (combined_init, 0, 0))) of
        (c, sources, totalConfidence) \<Rightarrow>
          c\<lparr>c_confidence := (if sources > 0 then totalConfidence / of_nat sources else 0)\<rparr>)"


text \<open>
  The quantities the spec's confidence rule speaks of, read off the three adapter
  results: the tempo and energy that AcousticBrainz supplies, the tempo of the Beatport
  estimator, the energy of Last.fm, the weights that are added, and two ways of counting
  sources: every non-failing one (\<open>sources_succeeded\<close>, the spec's wording), and the
  non-failing ones with Beatport counted only as a backup (\<open>sources_counted\<close>).
\<close>

definition tempo_of_acousticbrainz :: "acousticbrainz_data source_result \<Rightarrow> int option" where
  "tempo_of_acousticbrainz b =
     (case b of Failed _ \<Rightarrow> None | Data d \<Rightarrow> map_option Math_round (truthy (ab_bpm d)))"

definition energy_of_acousticbrainz :: "acousticbrainz_data source_result \<Rightarrow> rat option" where
  "energy_of_acousticbrainz b = (case b of Failed _ \<Rightarrow> None | Data d \<Rightarrow> truthy (ab_energy d))"

definition tempo_of_beatport :: "beatport_data source_result \<Rightarrow> int option" where
  "tempo_of_beatport c = (case c of Failed _ \<Rightarrow> None | Data d \<Rightarrow> truthy (bp_bpm d))"

definition energy_of_lastfm :: "lastfm_data source_result \<Rightarrow> rat option" where
  "energy_of_lastfm a = (case a of Failed _ \<Rightarrow> None | Data d \<Rightarrow> truthy (lf_estimatedEnergy d))"

definition beatport_consulted ::
  "acousticbrainz_data source_result \<Rightarrow> beatport_data source_result \<Rightarrow> bool" where
  "beatport_consulted b c = (succeeded c \<and> truthy (tempo_of_acousticbrainz b) = None)"

definition weights_contributed ::
  "lastfm_data source_result \<Rightarrow> acousticbrainz_data source_result \<Rightarrow>
   beatport_data source_result \<Rightarrow> rat" where
  "weights_contributed a b c =
     (if tempo_of_acousticbrainz b \<noteq> None then 8 / 10 else 0) +
     (if beatport_consulted b c \<and> tempo_of_beatport c \<noteq> None then 3 / 10 else 0) +
     (if energy_of_lastfm a \<noteq> None \<and> energy_of_acousticbrainz b = None then 2 / 10 else 0)"

definition sources_succeeded ::
  "lastfm_data source_result \<Rightarrow> acousticbrainz_data source_result \<Rightarrow>
   beatport_data source_result \<Rightarrow> nat" where
  "sources_succeeded a b c =
     (if succeeded a then 1 else 0) + (if succeeded b then 1 else 0) +
     (if succeeded c then 1 else 0)"

definition sources_counted ::
  "lastfm_data source_result \<Rightarrow> acousticbrainz_data source_result \<Rightarrow>
   beatport_data source_result \<Rightarrow> nat" where
  "sources_counted a b c =
     (if succeeded a then 1 else 0) + (if succeeded b then 1 else 0) +
     (if beatport_consulted b c then 1 else 0)"

definition spec_confidence ::
  "lastfm_data source_result \<Rightarrow> acousticbrainz_data source_result \<Rightarrow>
   beatport_data source_result \<Rightarrow> rat" where
  "spec_confidence a b c =
     (if sources_succeeded a b c = 0 then 0
      else weights_contributed a b c / of_nat (sources_succeeded a b c))"

section \<open>Batch orchestrator\<close>

text \<open>
  A thrown exception is a value. A track is an object of the library (the caller
  filters out missing items); \<open>t_artists\<close> holds the names of \<^verbatim>\<open>track.artists\<close>
  and is \<open>None\<close> when the property is missing.
\<close>

datatype js_error = TypeError string | Error string

record track =
  t_id :: string
  t_name :: string
  t_artists :: "string list option"

text \<open>\<^verbatim>\<open>track.artists[0].name\<close>: reading a property of \<^verbatim>\<open>undefined\<close> throws.\<close>

definition first_artist_name :: "track \<Rightarrow> js_error + string" where
  "first_artist_name track =
     (case t_artists track of
        None \<Rightarrow> Inl (TypeError ''Cannot read properties of undefined (reading 0)'')
      | Some [] \<Rightarrow> Inl (TypeError ''Cannot read properties of undefined (reading name)'')
      | Some (a # _) \<Rightarrow> Inr a)"

text \<open>
  The outside world of one batch run: what each adapter call made in iteration \<open>i\<close>
  settles to, and the draws of \<^verbatim>\<open>Math.random()\<close> that \<^verbatim>\<open>mapAcousticBrainzKey\<close> and
  \<^verbatim>\<open>mapAcousticBrainzMode\<close> make in that iteration.
\<close>

record world =
  getLastFmData :: "nat \<Rightarrow> string \<Rightarrow> string \<Rightarrow> lastfm_data source_result"
  getAcousticBrainzData :: "nat \<Rightarrow> string \<Rightarrow> string \<Rightarrow> acousticbrainz_data source_result"
  getBeatportData :: "nat \<Rightarrow> string \<Rightarrow> string \<Rightarrow> beatport_data source_result"
  random_key :: "nat \<Rightarrow> rat"
  random_mode :: "nat \<Rightarrow> rat"

record analysis =
  an_artist :: string
  an_track :: string
  an_spotifyId :: "string option"
  an_lastfm :: "lastfm_data source_result"
  an_acousticbrainz :: "acousticbrainz_data source_result"
  an_beatport :: "beatport_data source_result"
  an_combined :: combined

text \<open>\<^verbatim>\<open>getAlternativeAudioFeatures(artist, track, spotifyId)\<close> of
  \<^verbatim>\<open>alternative-audio-sources.js\<close>, called in iteration \<open>i\<close>.\<close>

definition getAlternativeAudioFeatures ::
  "world \<Rightarrow> nat \<Rightarrow> string \<Rightarrow> string \<Rightarrow> string option \<Rightarrow> analysis" where
  "getAlternativeAudioFeatures w i artist track spotifyId =
     (let lastfmData = getLastFmData w i artist track;
          acousticbrainzData = getAcousticBrainzData w i artist track;
          beatportData = getBeatportData w i artist track
      in \<lparr>an_artist = artist, an_track = track, an_spotifyId = spotifyId,
          an_lastfm = lastfmData, an_acousticbrainz = acousticbrainzData,
          an_beatport = beatportData,
          an_combined =
            combineAudioFeatures (random_key w i) (random_mode w i)
              lastfmData acousticbrainzData beatportData\<rparr>)"

text \<open>An entry of the batch result:
  \<^verbatim>\<open>{ track, ...analysis.combined, sources: [names without error] }\<close>.\<close>

record analysis_result =
  r_track :: "track option"
  r_bpm :: "int option"
  r_key :: "keyval option"
  r_mode :: "nat option"
  r_energy :: "rat option"
  r_danceability :: "rat option"
  r_confidence :: rat
  r_sources :: "string list"

definition batch_entry :: "track \<Rightarrow> analysis \<Rightarrow> analysis_result" where
  "batch_entry track a =
     \<lparr>r_track = Some track,
      r_bpm = c_bpm (an_combined a), r_key = c_key (an_combined a),
      r_mode = c_mode (an_combined a), r_energy = c_energy (an_combined a),
      r_danceability = c_danceability (an_combined a),
      r_confidence = c_confidence (an_combined a),
      r_sources =
        (if succeeded (an_lastfm a) then [''lastfm''] else []) @
        (if succeeded (an_acousticbrainz a) then [''acousticbrainz''] else []) @
        (if succeeded (an_beatport a) then [''beatport''] else [])\<rparr>"

text \<open>The body of the \<^verbatim>\<open>try\<close> block of iteration \<open>i\<close>: \<open>Inl\<close> is what it throws.\<close>

definition analyze_track ::
  "world \<Rightarrow> nat \<Rightarrow> track \<Rightarrow> analysis_result list \<Rightarrow> js_error + analysis_result list" where
  "analyze_track w i track results =
     (case first_artist_name track of
        Inl e \<Rightarrow> Inl e
      | Inr artist \<Rightarrow>
          let analysis = getAlternativeAudioFeatures w i artist (t_name track) (Some (t_id track))
          in Inr (if c_confidence (an_combined analysis) > 2 / 10
                  then results @ [batch_entry track analysis]
                  else results))"

text \<open>\<^verbatim>\<open>try { ... } catch (error) { console.log(...) }\<close>: the error is logged and dropped.\<close>

definition batch_iteration ::
  "world \<Rightarrow> nat \<Rightarrow> track \<Rightarrow> analysis_result list \<Rightarrow> analysis_result list" where
  "batch_iteration w i track results =
     (case analyze_track w i track results of Inl e \<Rightarrow> results | Inr results' \<Rightarrow> results')"

text \<open>
  The progress callback is the caller's code: it is given a percentage and a status
  text, and returns normally (\<open>None\<close>) or throws. It is called outside the \<^verbatim>\<open>try\<close>
  block, so what it throws leaves the loop. The pause between two tracks takes time only.
\<close>

type_synonym progress_callback = "rat \<Rightarrow> string \<Rightarrow> js_error option"

definition report_progress ::
  "progress_callback option \<Rightarrow> nat \<Rightarrow> nat \<Rightarrow> track \<Rightarrow> js_error option" where
  "report_progress progressCallback i n track =
     (case progressCallback of
        None \<Rightarrow> None
      | Some f \<Rightarrow> f (of_nat i / of_nat n * 100) (''Analyzing: '' @ t_name track))"

function batch_loop ::
  "world \<Rightarrow> progress_callback option \<Rightarrow> track list \<Rightarrow> nat \<Rightarrow> analysis_result list \<Rightarrow>
   js_error + analysis_result list" where
  "batch_loop w progressCallback tracks i results =
     (if i < length tracks then
        (case report_progress progressCallback i (length tracks) (tracks ! i) of
           Some e \<Rightarrow> Inl e
         | None \<Rightarrow>
             batch_loop w progressCallback tracks (i + 1)
               (batch_iteration w i (tracks ! i) results))
      else Inr results)"
  by pat_completeness auto
termination
  by (relation "measure (\<lambda>(w, cb, tracks, i, results). length tracks - i)") auto

declare batch_loop.simps [simp del]

definition batchAnalyzeAlternativeSources ::
  "world \<Rightarrow> track list \<Rightarrow> progress_callback option \<Rightarrow> js_error + analysis_result list" where
  "batchAnalyzeAlternativeSources w tracks progressCallback =
     batch_loop w progressCallback tracks 0 []"

text \<open>
  The spec's words for the batch: a track is accepted when its analysis ran and its
  merged confidence is above 0.2; all adapters of iteration \<open>i\<close> fail.
\<close>

definition merged_confidence :: "world \<Rightarrow> nat \<Rightarrow> track \<Rightarrow> rat option" where
  "merged_confidence w i track =
     (case first_artist_name track of
        Inl e \<Rightarrow> None
      | Inr artist \<Rightarrow>
          Some (c_confidence (an_combined
            (getAlternativeAudioFeatures w i artist (t_name track) (Some (t_id track))))))"

definition accepted :: "world \<Rightarrow> nat \<Rightarrow> track \<Rightarrow> bool" where
  "accepted w i track =
     (case merged_confidence w i track of None \<Rightarrow> False | Some conf \<Rightarrow> conf > 2 / 10)"

definition adapters_all_fail :: "world \<Rightarrow> nat \<Rightarrow> track \<Rightarrow> bool" where
  "adapters_all_fail w i track =
     (case first_artist_name track of
        Inl e \<Rightarrow> True
      | Inr artist \<Rightarrow>
          \<not> succeeded (getLastFmData w i artist (t_name track)) \<and>
          \<not> succeeded (getAcousticBrainzData w i artist (t_name track)) \<and>
          \<not> succeeded (getBeatportData w i artist (t_name track)))"

definition callback_returns :: "progress_callback option \<Rightarrow> bool" where
  "callback_returns progressCallback =
     (case progressCallback of None \<Rightarrow> True | Some f \<Rightarrow> (\<forall>p s. f p s = None))"


section \<open>Per-track processing\<close>

text \<open>A record of \<^verbatim>\<open>analyzedTracks\<close>, the spec's ReconciledFeature.\<close>

record feature =
  f_track :: track
  f_bpm :: int
  f_key :: keyval
  f_mode :: "nat option"
  f_camelotKey :: string
  f_keyName :: string
  f_energy :: rat
  f_danceability :: rat
  f_confidence :: rat
  f_sources :: "string list"
  f_harmonicKeys :: "string list"

text \<open>\<^verbatim>\<open>x || d\<close> on a number or \<^verbatim>\<open>null\<close>.\<close>

definition or_default :: "'a::zero option \<Rightarrow> 'a \<Rightarrow> 'a" where
  "or_default x d = (case truthy x of None \<Rightarrow> d | Some v \<Rightarrow> v)"

text \<open>
  The callback of \<^verbatim>\<open>analysisResults.forEach\<close> in \<^verbatim>\<open>processAlternativeAnalysis\<close>:
  \<open>None\<close> for each of its two early returns, else the record it pushes.
\<close>

definition process_result :: "analysis_result \<Rightarrow> feature option" where
  "process_result result =
     (case r_track result of
        None \<Rightarrow> None
      | Some track \<Rightarrow>
          (case r_key result of
             None \<Rightarrow> None
           | Some key \<Rightarrow>
               let camelotKey = getCamelotKey key (r_mode result);
                   keyName = or_unknown (table_get KEY_NAMES key);
                   mode = (if r_mode result = Some 1 then ''Major'' else ''Minor'')
               in Some
                 \<lparr>f_track = track,
                  f_bpm = or_default (r_bpm result) 120,
                  f_key = key,
                  f_mode = r_mode result,
                  f_camelotKey = camelotKey,
                  f_keyName = keyName @ '' '' @ mode,
                  f_energy = or_default (r_energy result) (5 / 10),
                  f_danceability = or_default (r_danceability result) (5 / 10),
                  f_confidence = or_default (Some (r_confidence result)) 0,
                  f_sources = r_sources result,
                  f_harmonicKeys = getHarmonicCompatibility camelotKey\<rparr>))"

definition processAlternativeAnalysis :: "analysis_result list \<Rightarrow> feature list" where
  "processAlternativeAnalysis analysisResults =
     fold (\<lambda>result analyzedTracks.
             case process_result result of
               None \<Rightarrow> analyzedTracks
             | Some f \<Rightarrow> analyzedTracks @ [f])
       analysisResults []"

section \<open>Harmonic grouper\<close>

text \<open>
  An object used as a dictionary is the list of its own properties in creation order;
  \<open>AList.update\<close> is the assignment \<^verbatim>\<open>obj[k] = v\<close> (in place for an existing
  property, at the end for a new one). \<^verbatim>\<open>Object.entries\<close> lists the properties whose
  names are array indices first, in ascending order, then the others in creation order.
\<close>

definition is_array_index :: "string \<Rightarrow> bool" where
  "is_array_index s =
     (s \<noteq> [] \<and> list_all (is_digit 10) s \<and> nat_to_string (digits_value 10 s) = s \<and>
      int (digits_value 10 s) < 4294967295)"

definition Object_entries :: "(string \<times> 'a) list \<Rightarrow> (string \<times> 'a) list" where
  "Object_entries obj =
     sort_key (\<lambda>p. digits_value 10 (fst p)) (filter (\<lambda>p. is_array_index (fst p)) obj) @
     filter (\<lambda>p. \<not> is_array_index (fst p)) obj"

definition toUpperCase :: "string \<Rightarrow> string" where
  "toUpperCase s =
     map (\<lambda>c. if 97 \<le> (of_char c :: nat) \<and> (of_char c :: nat) \<le> 122
               then char_of ((of_char c :: nat) - 32) else c) s"

record playlist =
  pl_name :: string
  pl_description :: string
  pl_tracks :: "feature list"
  pl_camelotKey :: string
  pl_bpmRange :: string

text \<open>
  The first loop of \<^verbatim>\<open>createDJPlaylists\<close>. For a name that \<^verbatim>\<open>keyGroups\<close> inherits
  from \<^verbatim>\<open>Object.prototype\<close> the test \<^verbatim>\<open>!keyGroups[k]\<close> is false and the inherited
  value has no \<^verbatim>\<open>push\<close>: the call throws.
\<close>

definition group_track ::
  "feature \<Rightarrow> (string \<times> feature list) list \<Rightarrow> js_error + (string \<times> feature list) list" where
  "group_track track keyGroups =
     (if f_camelotKey track \<in> set object_prototype_names
      then Inl (TypeError ''keyGroups[track.camelotKey].push is not a function'')
      else
        (case map_of keyGroups (f_camelotKey track) of
           None \<Rightarrow> Inr (AList.update (f_camelotKey track) [track] keyGroups)
         | Some g \<Rightarrow> Inr (AList.update (f_camelotKey track) (g @ [track]) keyGroups)))"

fun group_tracks ::
  "feature list \<Rightarrow> (string \<times> feature list) list \<Rightarrow> js_error + (string \<times> feature list) list" where
  "group_tracks [] keyGroups = Inr keyGroups"
| "group_tracks (track # rest) keyGroups =
     (case group_track track keyGroups of
        Inl e \<Rightarrow> Inl e
      | Inr keyGroups' \<Rightarrow> group_tracks rest keyGroups')"

text \<open>
  The name and the description start with characters outside ASCII (a control-knobs
  emoji, a bullet), given here by their UTF-8 bytes.
\<close>

definition knobs :: string where
  "knobs = [CHR 0xF0, CHR 0x9F, CHR 0x8E, CHR 0x9B, CHR 0xEF, CHR 0xB8, CHR 0x8F]"

definition bullet :: string where
  "bullet = [CHR 0xE2, CHR 0x80, CHR 0xA2]"

text \<open>\<^verbatim>\<open>Array.prototype.sort\<close> with the comparator \<^verbatim>\<open>a.bpm - b.bpm\<close> is a stable sort
  by tempo, as \<open>sort_key\<close> is.\<close>

definition make_playlist :: "string \<Rightarrow> string \<Rightarrow> feature list \<Rightarrow> playlist" where
  "make_playlist camelotKey speed speedTracks =
     \<lparr>pl_name =
        knobs @ '' '' @ camelotKey @ '' '' @ toUpperCase speed @
        '' ('' @ f_keyName (hd speedTracks) @ '')'',
      pl_description =
        ''DJ Mix Ready '' @ bullet @ '' Key: '' @ camelotKey @
        '' ('' @ f_keyName (hd speedTracks) @ '') '' @ bullet @
        '' BPM: '' @ int_to_string (f_bpm (hd speedTracks)) @ ''-'' @
        int_to_string (f_bpm (last speedTracks)) @ '' '' @ bullet @ '' '' @
        nat_to_string (length speedTracks) @ '' tracks'',
      pl_tracks = sort_key f_bpm speedTracks,
      pl_camelotKey = camelotKey,
      pl_bpmRange = speed\<rparr>"

definition add_band ::
  "string \<Rightarrow> string \<times> feature list \<Rightarrow> (string \<times> playlist) list \<Rightarrow> (string \<times> playlist) list" where
  "add_band camelotKey band playlists =
     (case band of (speed, speedTracks) \<Rightarrow>
        if length speedTracks \<ge> 2
        then AList.update (camelotKey @ ''-'' @ speed)
               (make_playlist camelotKey speed speedTracks) playlists
        else playlists)"

definition bpmRanges :: "feature list \<Rightarrow> (string \<times> feature list) list" where
  "bpmRanges tracks =
     [(''slow'', filter (\<lambda>t. f_bpm t < 100) tracks),
      (''medium'', filter (\<lambda>t. f_bpm t \<ge> 100 \<and> f_bpm t < 130) tracks),
      (''fast'', filter (\<lambda>t. f_bpm t \<ge> 130) tracks)]"

definition add_key_group ::
  "string \<times> feature list \<Rightarrow> (string \<times> playlist) list \<Rightarrow> (string \<times> playlist) list" where
  "add_key_group entry playlists =
     (case entry of (camelotKey, tracks) \<Rightarrow>
        if length tracks \<ge> 3 \<and> camelotKey \<noteq> ''Unknown''
        then fold (add_band camelotKey) (bpmRanges (sort_key f_bpm tracks)) playlists
        else playlists)"

text \<open>\<^verbatim>\<open>createDJPlaylists(analyzedTracks)\<close>; the object it returns, as the list of its
  properties.\<close>

definition createDJPlaylists :: "feature list \<Rightarrow> js_error + (string \<times> playlist) list" where
  "createDJPlaylists analyzedTracks =
     (case group_tracks analyzedTracks [] of
        Inl e \<Rightarrow> Inl e
      | Inr keyGroups \<Rightarrow> Inr (fold add_key_group (Object_entries keyGroups) []))"

text \<open>The partition of a wheel position: the features that carry it.\<close>

definition partition_of :: "string \<Rightarrow> feature list \<Rightarrow> feature list" where
  "partition_of k analyzedTracks = filter (\<lambda>t. f_camelotKey t = k) analyzedTracks"

text \<open>The 24 pairs of a pitch class and a mode flag (\<open>True\<close>: major).\<close>

definition pitch_modes :: "(nat \<times> bool) list" where
  "pitch_modes = List.product [0 ..< 12] [False, True]"

section \<open>Invariants and example inputs\<close>

text \<open>
  Example inputs: a world in which Last.fm has no credential, AcousticBrainz and the
  Beatport estimator answer for every track but each third one, and three tracks.
\<close>

definition example_world :: world where
  "example_world =
     \<lparr>getLastFmData = (\<lambda>i artist track. Failed ''Last.fm API key not configured''),
      getAcousticBrainzData = (\<lambda>i artist track.
        if i mod 3 = 2 then Failed ''AcousticBrainz failed: Track not found in MusicBrainz''
        else Data \<lparr>ab_bpm = Some (2559 / 20), ab_key = Some ''A'', ab_mode = Some ''minor'',
                   ab_energy = None, ab_danceability = Some (11 / 10)\<rparr>),
      getBeatportData = (\<lambda>i artist track.
        if i mod 3 = 2 then Failed ''Beatport search failed: URI malformed''
        else Data (getBeatportData_estimate 0 (1 / 2) (1 / 2))),
      random_key = (\<lambda>i. 0),
      random_mode = (\<lambda>i. 0)\<rparr>"

definition example_track :: "string \<Rightarrow> track" where
  "example_track name = \<lparr>t_id = name, t_name = name, t_artists = Some [''Artist'']\<rparr>"

definition example_tracks :: "track list" where
  "example_tracks = [example_track ''one'', example_track ''two'', example_track ''three'']"

text \<open>The key groups after a prefix \<open>seen\<close> of the features: each wheel position that
  occurs owns its partition, no other name is a property.\<close>

definition groups_of :: "feature list \<Rightarrow> (string \<times> feature list) list \<Rightarrow> bool" where
  "groups_of seen keyGroups =
     (distinct (map fst keyGroups) \<and>
      (\<forall>k. map_of keyGroups k =
             (if partition_of k seen = [] then None else Some (partition_of k seen))))"

text \<open>What holds of every property of the object that \<open>createDJPlaylists\<close> returns.\<close>

definition playlist_ok :: "feature list \<Rightarrow> string \<times> playlist \<Rightarrow> bool" where
  "playlist_ok analyzedTracks entry =
     (case entry of (key, p) \<Rightarrow>
        key = pl_camelotKey p @ ''-'' @ pl_bpmRange p \<and>
        2 \<le> length (pl_tracks p) \<and>
        pl_camelotKey p \<noteq> ''Unknown'' \<and>
        3 \<le> length (partition_of (pl_camelotKey p) analyzedTracks) \<and>
        set (pl_tracks p) \<subseteq> set (partition_of (pl_camelotKey p) analyzedTracks) \<and>
        sorted (map f_bpm (pl_tracks p)))"

definition example_feature :: "string \<Rightarrow> int \<Rightarrow> feature" where
  "example_feature name bpm =
     \<lparr>f_track = \<lparr>t_id = name, t_name = name, t_artists = Some [''Artist'']\<rparr>,
      f_bpm = bpm, f_key = KNum 9, f_mode = Some 0,
      f_camelotKey = ''11A'', f_keyName = ''A Minor'', f_energy = 5 / 10,
      f_danceability = 5 / 10, f_confidence = 8 / 10, f_sources = [''acousticbrainz''],
      f_harmonicKeys = getHarmonicCompatibility ''11A''\<rparr>"

section \<open>Properties of the key-circle model\<close>

lemma wheel_positions_eval:
  "wheel_positions =
     [''1A'', ''1B'', ''2A'', ''2B'', ''3A'', ''3B'', ''4A'', ''4B'', ''5A'', ''5B'', ''6A'',
      ''6B'', ''7A'', ''7B'', ''8A'', ''8B'', ''9A'', ''9B'', ''10A'', ''10B'', ''11A'', ''11B'',
      ''12A'', ''12B'']"
  by code_simp

lemma valid_keys_iff:
  "(n, l) \<in> set valid_keys \<longleftrightarrow> 1 \<le> n \<and> n \<le> 12 \<and> (l = CHR ''A'' \<or> l = CHR ''B'')"
  by (auto simp: valid_keys_def)

lemma wheel_positions_valid_keys:
  "wheel_positions = map (\<lambda>p. wheel_position (fst p) (snd p)) valid_keys"
  by code_simp

lemma wheel_position_mem:
  assumes "1 \<le> n" "n \<le> 12" "l = CHR ''A'' \<or> l = CHR ''B''"
  shows "wheel_position n l \<in> set wheel_positions"
proof -
  have "(n, l) \<in> set valid_keys"
    using assms by (simp add: valid_keys_iff)
  then have "wheel_position (fst (n, l)) (snd (n, l)) \<in> set wheel_positions"
    unfolding wheel_positions_valid_keys set_map by (rule imageI)
  then show ?thesis by simp
qed

lemma pitch_modes_set: "set pitch_modes = {0 ..< 12} \<times> UNIV"
  by (auto simp: pitch_modes_def)

lemma camelot_table_eval:
  "map (\<lambda>p. getCamelotKey (KNum (fst p)) (Some (if snd p then 1 else 0))) pitch_modes =
     [''8A'', ''1B'', ''3A'', ''8B'', ''10A'', ''3B'', ''5A'', ''10B'', ''12A'', ''5B'', ''7A'',
      ''12B'', ''2A'', ''7B'', ''9A'', ''2B'', ''4A'', ''9B'', ''11A'', ''4B'', ''6A'', ''11B'',
      ''1A'', ''6B'']"
  by code_simp

lemma camelot_table_distinct:
  "distinct (map (\<lambda>p. getCamelotKey (KNum (fst p)) (Some (if snd p then 1 else 0))) pitch_modes)"
  unfolding camelot_table_eval by simp

lemma camelot_table_set:
  "set (map (\<lambda>p. getCamelotKey (KNum (fst p)) (Some (if snd p then 1 else 0))) pitch_modes) =
     set wheel_positions"
  unfolding camelot_table_eval wheel_positions_eval by code_simp

lemma wheel_positions_distinct: "distinct wheel_positions"
  unfolding wheel_positions_eval by simp

text \<open>
  C4: the map from the 24 pairs (pitch class 0..11, major or minor) to the wheel
  positions is a bijection onto the 24 positions ``1A'' .. ``12B''; ``Unknown'' is not
  among them; and only whether the mode is 1 matters.
\<close>

theorem camelot_bijection:
  "bij_betw (\<lambda>p. getCamelotKey (KNum (fst p)) (Some (if snd p then 1 else 0)))
     ({0 ..< 12} \<times> UNIV) (set wheel_positions) \<and>
   card (set wheel_positions) = 24 \<and>
   ''Unknown'' \<notin> set wheel_positions \<and>
   getCamelotKey key mode = getCamelotKey key (Some (if mode = Some 1 then 1 else 0))"
proof -
  have "bij_betw (\<lambda>p. getCamelotKey (KNum (fst p)) (Some (if snd p then 1 else 0)))
     ({0 ..< 12} \<times> UNIV) (set wheel_positions)"
    unfolding bij_betw_def pitch_modes_set[symmetric] camelot_table_set[symmetric]
    using camelot_table_distinct by (simp add: distinct_map)
  moreover have "card (set wheel_positions) = 24"
    using distinct_card[OF wheel_positions_distinct] by (simp add: wheel_positions_eval)
  moreover have "''Unknown'' \<notin> set wheel_positions"
    by (simp add: wheel_positions_eval)
  moreover have "getCamelotKey key mode = getCamelotKey key (Some (if mode = Some 1 then 1 else 0))"
    by (simp add: getCamelotKey_def)
  ultimately show ?thesis by blast
qed

lemma compatibility_all_eight:
  "list_all (\<lambda>p. let k = wheel_position (fst p) (snd p); c = getHarmonicCompatibility k in
      length c = 8 \<and> k \<in> set c \<and> list_all slot_in_range c \<and>
      list_all (\<lambda>e. e \<in> set wheel_positions) c) valid_keys"
  by code_simp

lemma compatibility_all_shape:
  "list_all (\<lambda>p. getHarmonicCompatibility (wheel_position (fst p) (snd p)) =
     [wheel_position (fst p) (snd p),
      wheel_position (circle_slot (int (fst p) + 1)) (snd p),
      wheel_position (circle_slot (int (fst p) - 1)) (snd p),
      wheel_position (fst p) (opposite_letter (snd p)),
      wheel_position (circle_slot (int (fst p) + 7)) (snd p),
      wheel_position (circle_slot (int (fst p) + 5)) (snd p),
      wheel_position (circle_slot (int (fst p) + 1)) (opposite_letter (snd p)),
      wheel_position (circle_slot (int (fst p) - 1)) (opposite_letter (snd p))]) valid_keys"
  by code_simp

lemma slot_in_range_iff:
  "slot_in_range e \<longleftrightarrow> (\<exists>s. parseInt e = Some s \<and> 1 \<le> s \<and> s \<le> 12)"
  by (simp add: slot_in_range_def split: option.splits)

text \<open>
  C5: for every valid Camelot key (slot 1..12, letter A or B) the compatibility list has
  exactly 8 entries, contains the key itself, and every entry has a slot in 1..12 (it is
  one of the 24 wheel positions); after slot 12 comes slot 1, before slot 1 slot 12.
\<close>

theorem compatibility_eight_entries:
  assumes "1 \<le> n" and "n \<le> 12" and "l = CHR ''A'' \<or> l = CHR ''B''"
  shows "length (getHarmonicCompatibility (wheel_position n l)) = 8 \<and>
         wheel_position n l \<in> set (getHarmonicCompatibility (wheel_position n l)) \<and>
         (\<forall>e \<in> set (getHarmonicCompatibility (wheel_position n l)).
            (\<exists>s. parseInt e = Some s \<and> 1 \<le> s \<and> s \<le> 12) \<and> e \<in> set wheel_positions) \<and>
         getHarmonicCompatibility (wheel_position 12 l) ! 1 = wheel_position 1 l \<and>
         getHarmonicCompatibility (wheel_position 1 l) ! 2 = wheel_position 12 l"
proof -
  have mem: "(n, l) \<in> set valid_keys" and m12: "(12, l) \<in> set valid_keys"
    and m1: "(1, l) \<in> set valid_keys"
    using assms by (simp_all add: valid_keys_iff)
  have all: "\<forall>p \<in> set valid_keys.
      length (getHarmonicCompatibility (wheel_position (fst p) (snd p))) = 8 \<and>
      wheel_position (fst p) (snd p) \<in> set (getHarmonicCompatibility (wheel_position (fst p) (snd p))) \<and>
      list_all slot_in_range (getHarmonicCompatibility (wheel_position (fst p) (snd p))) \<and>
      list_all (\<lambda>e. e \<in> set wheel_positions)
        (getHarmonicCompatibility (wheel_position (fst p) (snd p)))"
    using compatibility_all_eight unfolding list_all_iff[of _ valid_keys] Let_def .
  have shape: "\<forall>p \<in> set valid_keys.
      getHarmonicCompatibility (wheel_position (fst p) (snd p)) ! 1 =
        wheel_position (circle_slot (int (fst p) + 1)) (snd p) \<and>
      getHarmonicCompatibility (wheel_position (fst p) (snd p)) ! 2 =
        wheel_position (circle_slot (int (fst p) - 1)) (snd p)"
    using compatibility_all_shape unfolding list_all_iff by simp
  have "length (getHarmonicCompatibility (wheel_position n l)) = 8 \<and>
        wheel_position n l \<in> set (getHarmonicCompatibility (wheel_position n l)) \<and>
        list_all slot_in_range (getHarmonicCompatibility (wheel_position n l)) \<and>
        list_all (\<lambda>e. e \<in> set wheel_positions) (getHarmonicCompatibility (wheel_position n l))"
    using bspec[OF all mem] by (simp only: fst_conv snd_conv)
  moreover have "getHarmonicCompatibility (wheel_position 12 l) ! 1 = wheel_position 1 l"
    using bspec[OF shape m12] by (simp add: circle_slot_def)
  moreover have "getHarmonicCompatibility (wheel_position 1 l) ! 2 = wheel_position 12 l"
    using bspec[OF shape m1] by (simp add: circle_slot_def)
  ultimately show ?thesis
    by (simp add: list_all_iff slot_in_range_iff)
qed

theorem compatibility_eight_entries_witness:
  "length (getHarmonicCompatibility (wheel_position 12 CHR ''A'')) = 8 \<and>
   wheel_position 12 CHR ''A'' \<in> set (getHarmonicCompatibility (wheel_position 12 CHR ''A'')) \<and>
   list_all (\<lambda>e. e \<in> set wheel_positions) (getHarmonicCompatibility (wheel_position 12 CHR ''A'')) \<and>
   getHarmonicCompatibility (wheel_position 12 CHR ''A'') ! 1 = wheel_position 1 CHR ''A''"
  using compatibility_eight_entries[of 12 "CHR ''A''"] by (simp add: list_all_iff)

text \<open>
  C2, as stated, fails: the compatibility list of 8A contains 9B and 7B, which are
  neither 8A, a same-letter neighbour, the twin 8B, nor 5 or 7 slots away from slot 8.
\<close>

theorem compatibility_spec_counterexample:
  "getHarmonicCompatibility (wheel_position 8 CHR ''A'') =
     [''8A'', ''9A'', ''7A'', ''8B'', ''3A'', ''1A'', ''9B'', ''7B''] \<and>
   \<not> spec_compatible 8 CHR ''A'' ''9B'' \<and>
   \<not> list_all (spec_compatible 8 CHR ''A'') (getHarmonicCompatibility (wheel_position 8 CHR ''A''))"
  by code_simp

text \<open>
  C2, amended: for every valid Camelot key with slot \<open>n\<close> and letter \<open>l\<close> the
  compatibility list is, in this order: the key itself; the same-letter neighbours at
  slots \<open>n + 1\<close> and \<open>n - 1\<close>; the opposite-letter twin at slot \<open>n\<close>; the same-letter
  positions at slots \<open>n + 7\<close> and \<open>n + 5\<close> (which on the circle are \<open>n - 5\<close> and
  \<open>n - 7\<close>); and the opposite-letter positions at slots \<open>n + 1\<close> and \<open>n - 1\<close>.
\<close>

theorem compatibility_shape:
  assumes "1 \<le> n" and "n \<le> 12" and "l = CHR ''A'' \<or> l = CHR ''B''"
  shows "getHarmonicCompatibility (wheel_position n l) =
           [wheel_position n l,
            wheel_position (circle_slot (int n + 1)) l,
            wheel_position (circle_slot (int n - 1)) l,
            wheel_position n (opposite_letter l),
            wheel_position (circle_slot (int n + 7)) l,
            wheel_position (circle_slot (int n + 5)) l,
            wheel_position (circle_slot (int n + 1)) (opposite_letter l),
            wheel_position (circle_slot (int n - 1)) (opposite_letter l)] \<and>
         circle_slot (int n + 7) = circle_slot (int n - 5) \<and>
         circle_slot (int n + 5) = circle_slot (int n - 7)"
proof -
  have "(n, l) \<in> set valid_keys"
    using assms by (simp add: valid_keys_iff)
  with compatibility_all_shape have shape:
    "getHarmonicCompatibility (wheel_position (fst (n, l)) (snd (n, l))) =
       [wheel_position (fst (n, l)) (snd (n, l)),
        wheel_position (circle_slot (int (fst (n, l)) + 1)) (snd (n, l)),
        wheel_position (circle_slot (int (fst (n, l)) - 1)) (snd (n, l)),
        wheel_position (fst (n, l)) (opposite_letter (snd (n, l))),
        wheel_position (circle_slot (int (fst (n, l)) + 7)) (snd (n, l)),
        wheel_position (circle_slot (int (fst (n, l)) + 5)) (snd (n, l)),
        wheel_position (circle_slot (int (fst (n, l)) + 1)) (opposite_letter (snd (n, l))),
        wheel_position (circle_slot (int (fst (n, l)) - 1)) (opposite_letter (snd (n, l)))]"
    unfolding list_all_iff by (rule bspec)
  have "int n + 7 - 1 = (int n - 5 - 1) + 12"
    by simp
  then have "(int n + 7 - 1) mod 12 = (int n - 5 - 1) mod 12"
    by (simp only: mod_add_self2)
  then have e7: "circle_slot (int n + 7) = circle_slot (int n - 5)"
    by (simp only: circle_slot_def)
  have "int n + 5 - 1 = (int n - 7 - 1) + 12"
    by simp
  then have "(int n + 5 - 1) mod 12 = (int n - 7 - 1) mod 12"
    by (simp only: mod_add_self2)
  then have e5: "circle_slot (int n + 5) = circle_slot (int n - 7)"
    by (simp only: circle_slot_def)
  from shape e7 e5 show ?thesis
    by (simp only: fst_conv snd_conv simp_thms)
qed

theorem compatibility_shape_witness:
  "getHarmonicCompatibility (wheel_position 8 CHR ''A'') =
     [wheel_position 8 CHR ''A'', wheel_position 9 CHR ''A'', wheel_position 7 CHR ''A'',
      wheel_position 8 CHR ''B'', wheel_position 3 CHR ''A'', wheel_position 1 CHR ''A'',
      wheel_position 9 CHR ''B'', wheel_position 7 CHR ''B'']"
  using compatibility_shape[of 8 "CHR ''A''"] by (simp add: circle_slot_def opposite_letter_def)

section \<open>Properties of the reconciler\<close>

lemma truthy_None [simp]: "truthy None = None"
  by (simp add: truthy_def)

lemma truthy_Some [simp]: "truthy (Some v) = (if v = 0 then None else Some v)"
  by (simp add: truthy_def)

lemma truthy_SomeD: "truthy x = Some y \<Longrightarrow> x = Some y \<and> y \<noteq> 0"
  by (cases x) (auto split: if_splits)

lemma min_one_eq_0 [simp]: "min 1 (e::rat) = 0 \<longleftrightarrow> e = 0"
  by (auto simp: min_def)

lemma merge_acousticbrainz_result:
  "merge_acousticbrainz rk rm b (combined_init, 0, 0) = (c, n, t) \<Longrightarrow>
     c_bpm c = tempo_of_acousticbrainz b \<and>
     (truthy (c_energy c) = None \<longleftrightarrow> energy_of_acousticbrainz b = None) \<and>
     n = (if succeeded b then 1 else 0) \<and>
     t = (if tempo_of_acousticbrainz b \<noteq> None then 8 / 10 else 0)"
  by (cases b)
    (auto simp: merge_acousticbrainz_def combined_init_def tempo_of_acousticbrainz_def
      energy_of_acousticbrainz_def succeeded_def Let_def
      split: option.splits prod.splits dest: truthy_SomeD)

lemma merge_beatport_result:
  "merge_beatport cd (c, n, t) = (c', n', t') \<Longrightarrow>
     c_energy c' = c_energy c \<and>
     n' = n + (if succeeded cd \<and> truthy (c_bpm c) = None then 1 else 0) \<and>
     t' = t + (if succeeded cd \<and> truthy (c_bpm c) = None \<and> tempo_of_beatport cd \<noteq> None
               then 3 / 10 else 0)"
  by (cases cd)
    (auto simp: merge_beatport_def tempo_of_beatport_def succeeded_def Let_def
      split: option.splits prod.splits if_splits)

lemma merge_lastfm_result:
  "merge_lastfm a (c, n, t) = (c', n', t') \<Longrightarrow>
     n' = n + (if succeeded a then 1 else 0) \<and>
     t' = t + (if energy_of_lastfm a \<noteq> None \<and> truthy (c_energy c) = None then 2 / 10 else 0)"
  by (cases a)
    (auto simp: merge_lastfm_def energy_of_lastfm_def succeeded_def Let_def
      split: option.splits prod.splits if_splits)

lemma combine_confidence:
  "c_confidence (combineAudioFeatures rk rm a b c) =
     (if sources_counted a b c = 0 then 0
      else weights_contributed a b c / of_nat (sources_counted a b c))"
proof -
  obtain c1 n1 t1 where m1: "merge_acousticbrainz rk rm b (combined_init, 0, 0) = (c1, n1, t1)"
    by (cases "merge_acousticbrainz rk rm b (combined_init, 0, 0)") auto
  obtain c2 n2 t2 where m2: "merge_beatport c (c1, n1, t1) = (c2, n2, t2)"
    by (cases "merge_beatport c (c1, n1, t1)") auto
  obtain c3 n3 t3 where m3: "merge_lastfm a (c2, n2, t2) = (c3, n3, t3)"
    by (cases "merge_lastfm a (c2, n2, t2)") auto
  note e1 = merge_acousticbrainz_result[OF m1] and e2 = merge_beatport_result[OF m2]
    and e3 = merge_lastfm_result[OF m3]
  have n: "n3 = sources_counted a b c"
    using e1 e2 e3 by (simp add: sources_counted_def beatport_consulted_def)
  have t: "t3 = weights_contributed a b c"
    using e1 e2 e3 by (simp add: weights_contributed_def beatport_consulted_def)
  show ?thesis
    by (simp add: combineAudioFeatures_def m1 m2 m3 n t)
qed

lemma estimate_tempo_lower_bound:
  assumes "0 \<le> r2"
  shows "120 \<le> fst (estimateBeatportData r1 r2 r3)"
proof -
  define b8 b10 b20 where "b8 = \<lfloor>r2 * 8\<rfloor>" and "b10 = \<lfloor>r2 * 10\<rfloor>" and "b20 = \<lfloor>r2 * 20\<rfloor>"
  have "0 \<le> b8" "0 \<le> b10" "0 \<le> b20"
    using assms by (simp_all add: b8_def b10_def b20_def)
  then show ?thesis
    unfolding estimateBeatportData_def Let_def b8_def[symmetric] b10_def[symmetric]
      b20_def[symmetric]
    by (simp only: fst_conv split: if_split) linarith
qed

lemma estimate_tempo_positive:
  assumes "0 \<le> r2"
  shows "tempo_of_beatport (Data (getBeatportData_estimate r1 r2 r3)) \<noteq> None"
proof -
  obtain bpm key genre where e: "estimateBeatportData r1 r2 r3 = (bpm, key, genre)"
    by (cases "estimateBeatportData r1 r2 r3") auto
  with estimate_tempo_lower_bound[OF assms, of r1 r3] have "120 \<le> bpm"
    by simp
  then show ?thesis
    by (simp add: tempo_of_beatport_def getBeatportData_estimate_def e)
qed

lemma all_failed_confidence:
  assumes "\<not> succeeded a" "\<not> succeeded b" "\<not> succeeded c"
  shows "c_confidence (combineAudioFeatures rk rm a b c) = 0"
  using assms by (simp add: combine_confidence sources_counted_def beatport_consulted_def)

text \<open>
  The merged confidence is exactly 0.2 or stays away from it by more than 0.03; the
  comparison with the threshold 0.2 therefore does not depend on the rounding of
  floating-point division.
\<close>

lemma confidence_margin:
  "c_confidence (combineAudioFeatures rk rm a b c) = 2 / 10 \<or>
   c_confidence (combineAudioFeatures rk rm a b c) \<le> 1 / 6 \<or>
   5 / 20 \<le> c_confidence (combineAudioFeatures rk rm a b c)"
  unfolding combine_confidence
  by (cases "succeeded a"; cases "succeeded b"; cases "beatport_consulted b c";
      cases "tempo_of_acousticbrainz b = None"; cases "tempo_of_beatport c = None";
      cases "energy_of_lastfm a = None \<or> energy_of_acousticbrainz b \<noteq> None")
    (simp_all add: sources_counted_def weights_contributed_def)

text \<open>
  C1, as stated, fails: with Last.fm failing, AcousticBrainz giving tempo 128 and the
  Beatport estimator succeeding too, two sources returned a non-failing result, but the
  confidence is 0.8 / 1 and not 0.8 / 2.
\<close>

theorem confidence_counterexample:
  "c_confidence
     (combineAudioFeatures 0 0 (Failed ''Last.fm API key not configured'')
        (Data \<lparr>ab_bpm = Some 128, ab_key = Some ''C'', ab_mode = Some ''major'',
               ab_energy = None, ab_danceability = None\<rparr>)
        (Data \<lparr>bp_bpm = Some 125, bp_key = Some 7\<rparr>)) = 8 / 10 \<and>
   spec_confidence (Failed ''Last.fm API key not configured'')
        (Data \<lparr>ab_bpm = Some 128, ab_key = Some ''C'', ab_mode = Some ''major'',
               ab_energy = None, ab_danceability = None\<rparr>)
        (Data \<lparr>bp_bpm = Some 125, bp_key = Some 7\<rparr>) = 4 / 10"
  by code_simp

text \<open>
  C1, amended: the confidence is the sum of the weights contributed divided by the number
  of sources counted, where Last.fm and AcousticBrainz are counted whenever they did not
  fail and the Beatport estimator is counted only when it did not fail and AcousticBrainz
  supplied no nonzero tempo. It is 0 when no source succeeded. It agrees with the spec's
  quotient whenever Beatport failed or was consulted. When only the estimator succeeds,
  with a tempo (it always has one), the confidence is exactly 0.3.
\<close>

theorem confidence_rule:
  "c_confidence (combineAudioFeatures rk rm a b c) =
     (if sources_counted a b c = 0 then 0
      else weights_contributed a b c / of_nat (sources_counted a b c)) \<and>
   (sources_succeeded a b c = 0 \<longrightarrow> c_confidence (combineAudioFeatures rk rm a b c) = 0) \<and>
   (\<not> succeeded c \<or> truthy (tempo_of_acousticbrainz b) = None \<longrightarrow>
      c_confidence (combineAudioFeatures rk rm a b c) = spec_confidence a b c) \<and>
   (\<not> succeeded a \<and> \<not> succeeded b \<and> succeeded c \<and> tempo_of_beatport c \<noteq> None \<longrightarrow>
      c_confidence (combineAudioFeatures rk rm a b c) = 3 / 10) \<and>
   (\<not> succeeded a \<and> \<not> succeeded b \<and> 0 \<le> r2 \<longrightarrow>
      c_confidence (combineAudioFeatures rk rm a b (Data (getBeatportData_estimate r1 r2 r3)))
        = 3 / 10)"
proof -
  have only_c: "c_confidence (combineAudioFeatures rk rm a b c') = 3 / 10"
    if "\<not> succeeded a" "\<not> succeeded b" "succeeded c'" "tempo_of_beatport c' \<noteq> None" for c'
  proof -
    have "tempo_of_acousticbrainz b = None" "energy_of_lastfm a = None"
      using that by (simp_all add: tempo_of_acousticbrainz_def energy_of_lastfm_def
          succeeded_def split: source_result.splits)
    then show ?thesis
      using that
      by (simp add: combine_confidence sources_counted_def weights_contributed_def
          beatport_consulted_def)
  qed
  have "sources_succeeded a b c = 0 \<longrightarrow> c_confidence (combineAudioFeatures rk rm a b c) = 0"
    by (simp add: sources_succeeded_def all_failed_confidence split: if_splits)
  moreover have "\<not> succeeded c \<or> truthy (tempo_of_acousticbrainz b) = None \<longrightarrow>
      c_confidence (combineAudioFeatures rk rm a b c) = spec_confidence a b c"
    by (auto simp: combine_confidence spec_confidence_def sources_counted_def
        sources_succeeded_def weights_contributed_def beatport_consulted_def)
  moreover have "\<not> succeeded a \<and> \<not> succeeded b \<and> succeeded c \<and> tempo_of_beatport c \<noteq> None \<longrightarrow>
      c_confidence (combineAudioFeatures rk rm a b c) = 3 / 10"
    using only_c by blast
  moreover have "\<not> succeeded a \<and> \<not> succeeded b \<and> 0 \<le> r2 \<longrightarrow>
      c_confidence (combineAudioFeatures rk rm a b (Data (getBeatportData_estimate r1 r2 r3)))
        = 3 / 10"
    using only_c[of "Data (getBeatportData_estimate r1 r2 r3)"] estimate_tempo_positive[of r2 r1 r3]
    by (simp add: succeeded_def)
  ultimately show ?thesis
    using combine_confidence by blast
qed

theorem confidence_rule_witness:
  "c_confidence
     (combineAudioFeatures 0 0 (Failed ''Last.fm API key not configured'')
        (Failed ''AcousticBrainz failed: Track not found in MusicBrainz'')
        (Data \<lparr>bp_bpm = Some 125, bp_key = Some 7\<rparr>)) = 3 / 10 \<and>
   c_confidence
     (combineAudioFeatures 0 0 (Failed ''Last.fm API key not configured'')
        (Failed ''AcousticBrainz failed: Track not found in MusicBrainz'')
        (Data (getBeatportData_estimate (1 / 2) (1 / 2) (1 / 2)))) = 3 / 10"
  using confidence_rule[of 0 0 "Failed ''Last.fm API key not configured''"
      "Failed ''AcousticBrainz failed: Track not found in MusicBrainz''"
      "Data \<lparr>bp_bpm = Some 125, bp_key = Some 7\<rparr>" "1 / 2" "1 / 2" "1 / 2"]
  by (simp add: succeeded_def tempo_of_beatport_def)

section \<open>Properties of the per-track processing\<close>

lemma fold_push:
  "fold (\<lambda>result analyzedTracks.
           case g result of None \<Rightarrow> analyzedTracks | Some f \<Rightarrow> analyzedTracks @ [f]) rs acc =
     acc @ List.map_filter g rs"
  by (induction rs arbitrary: acc) (auto simp: List.map_filter_simps split: option.splits)

lemma processAlternativeAnalysis_map_filter:
  "processAlternativeAnalysis rs = List.map_filter process_result rs"
  by (simp add: processAlternativeAnalysis_def fold_push)

lemma map_filter_append:
  "List.map_filter g (xs @ ys) = List.map_filter g xs @ List.map_filter g ys"
  by (simp add: List.map_filter_def)

lemma camelot_known_keys:
  "list_all (\<lambda>k. getCamelotKey (KNum k) (Some 1) \<noteq> ''Unknown'' \<and>
                  getCamelotKey (KNum k) (Some 0) \<noteq> ''Unknown'') [0 ..< 12]"
  by code_simp

lemma getCamelotKey_mode:
  "getCamelotKey key mode = getCamelotKey key (Some (if mode = Some 1 then 1 else 0))"
  by (simp add: getCamelotKey_def)

lemma getCamelotKey_known:
  assumes "k < 12"
  shows "getCamelotKey (KNum k) mode \<noteq> ''Unknown''"
proof -
  have "k \<in> set [0 ..< 12]"
    using assms by simp
  with camelot_known_keys
  have "getCamelotKey (KNum k) (Some 1) \<noteq> ''Unknown'' \<and>
        getCamelotKey (KNum k) (Some 0) \<noteq> ''Unknown''"
    unfolding list_all_iff by (rule bspec)
  then show ?thesis
    by (subst getCamelotKey_mode) (simp split: if_splits)
qed

lemma getCamelotKey_outside:
  assumes "12 \<le> k"
  shows "getCamelotKey (KNum k) mode = ''Unknown''"
  using assms
  by (simp add: getCamelotKey_def table_get_def or_unknown_def CAMELOT_WHEEL_def
      CAMELOT_WHEEL_MINOR_def)

lemma getCamelotKey_object: "getCamelotKey KObj mode = ''Unknown''"
  by (simp add: getCamelotKey_def table_get_def or_unknown_def)

lemma getCamelotKey_unknown_iff:
  "getCamelotKey key mode = ''Unknown'' \<longleftrightarrow> (\<forall>k<12. key \<noteq> KNum k)"
proof (cases key)
  case (KNum k)
  then show ?thesis
    using getCamelotKey_known[of k mode] getCamelotKey_outside[of k mode]
    by (cases "k < 12") auto
next
  case KObj
  then show ?thesis by (simp add: getCamelotKey_object)
qed

text \<open>
  C3, as stated, fails: an analysis result without a key (here one the batch produces
  when AcousticBrainz gives a tempo but no key) leaves no feature record at all, so
  there is none with the wheel position ``Unknown''.
\<close>

theorem missing_key_counterexample:
  "process_result
     \<lparr>r_track = Some \<lparr>t_id = ''4uLU6hMCjMI75M1A2tKUQC'', t_name = ''Song'', t_artists = Some [''Artist'']\<rparr>,
      r_bpm = Some 128, r_key = None, r_mode = None, r_energy = None, r_danceability = None,
      r_confidence = 8 / 10, r_sources = [''acousticbrainz'', ''beatport'']\<rparr> = None \<and>
   processAlternativeAnalysis
     [\<lparr>r_track = Some \<lparr>t_id = ''4uLU6hMCjMI75M1A2tKUQC'', t_name = ''Song'', t_artists = Some [''Artist'']\<rparr>,
       r_bpm = Some 128, r_key = None, r_mode = None, r_energy = None, r_danceability = None,
       r_confidence = 8 / 10, r_sources = [''acousticbrainz'', ''beatport'']\<rparr>] = []"
  by code_simp

text \<open>
  C3, amended: for every analysis result whose key is absent the per-track processing
  builds no feature record; the track is dropped there, whatever stands around it in the
  list. A feature record has the wheel position ``Unknown'' exactly when its key is
  present but is none of the pitch classes 0..11.
\<close>

theorem missing_key_dropped:
  "(r_key r = None \<longrightarrow>
      process_result r = None \<and>
      processAlternativeAnalysis (xs @ r # ys) = processAlternativeAnalysis (xs @ ys)) \<and>
   (process_result r = Some f \<longrightarrow>
      r_key r \<noteq> None \<and>
      (f_camelotKey f = ''Unknown'' \<longleftrightarrow> (\<forall>k<12. r_key r \<noteq> Some (KNum k))))"
proof -
  have none: "process_result r = None" if "r_key r = None"
    using that by (simp add: process_result_def split: option.splits)
  have "processAlternativeAnalysis (xs @ r # ys) = processAlternativeAnalysis (xs @ ys)"
    if "r_key r = None"
    using none[OF that]
    by (simp add: processAlternativeAnalysis_map_filter map_filter_append List.map_filter_simps)
  moreover have "r_key r \<noteq> None \<and>
      (f_camelotKey f = ''Unknown'' \<longleftrightarrow> (\<forall>k<12. r_key r \<noteq> Some (KNum k)))"
    if "process_result r = Some f"
  proof -
    from that obtain track key where k: "r_key r = Some key" "r_track r = Some track"
      by (auto simp: process_result_def split: option.splits)
    with that have "f_camelotKey f = getCamelotKey key (r_mode r)"
      by (auto simp: process_result_def Let_def)
    then show ?thesis
      using k by (simp add: getCamelotKey_unknown_iff)
  qed
  ultimately show ?thesis
    using none by blast
qed

theorem missing_key_dropped_witness:
  "process_result
     \<lparr>r_track = Some \<lparr>t_id = ''4uLU6hMCjMI75M1A2tKUQC'', t_name = ''Song'', t_artists = Some [''Artist'']\<rparr>,
      r_bpm = Some 128, r_key = None, r_mode = None, r_energy = None, r_danceability = None,
      r_confidence = 8 / 10, r_sources = [''acousticbrainz'', ''beatport'']\<rparr> = None \<and>
   processAlternativeAnalysis
     ([] @ \<lparr>r_track = Some \<lparr>t_id = ''4uLU6hMCjMI75M1A2tKUQC'', t_name = ''Song'', t_artists = Some [''Artist'']\<rparr>,
       r_bpm = Some 128, r_key = None, r_mode = None, r_energy = None, r_danceability = None,
       r_confidence = 8 / 10, r_sources = [''acousticbrainz'', ''beatport'']\<rparr> # []) =
     processAlternativeAnalysis ([] @ [])"
  using missing_key_dropped[of
      "\<lparr>r_track = Some \<lparr>t_id = ''4uLU6hMCjMI75M1A2tKUQC'', t_name = ''Song'', t_artists = Some [''Artist'']\<rparr>,
       r_bpm = Some 128, r_key = None, r_mode = None, r_energy = None, r_danceability = None,
       r_confidence = 8 / 10, r_sources = [''acousticbrainz'', ''beatport'']\<rparr>" "[]" "[]"]
  by simp

lemma or_default_zero [simp]: "or_default (Some 0) d = d" "or_default None d = d"
  by (simp_all add: or_default_def)

text \<open>
  C10: a value of exactly 0 is treated as a missing one. In the per-track processing a
  tempo, energy or danceability of 0 gives the same feature as \<^verbatim>\<open>null\<close> does, with
  the defaults 120, 0.5 and 0.5. In the reconciler a tempo, energy or danceability of 0
  from AcousticBrainz, a tempo of 0 from the Beatport estimator and an energy of 0 from
  Last.fm give the same merge as \<^verbatim>\<open>null\<close> does.
\<close>

theorem zero_is_missing:
  "process_result (r\<lparr>r_bpm := Some 0\<rparr>) = process_result (r\<lparr>r_bpm := None\<rparr>) \<and>
   process_result (r\<lparr>r_energy := Some 0\<rparr>) = process_result (r\<lparr>r_energy := None\<rparr>) \<and>
   process_result (r\<lparr>r_danceability := Some 0\<rparr>) =
     process_result (r\<lparr>r_danceability := None\<rparr>) \<and>
   (process_result r = Some f \<longrightarrow>
      (r_bpm r = Some 0 \<longrightarrow> f_bpm f = 120) \<and>
      (r_energy r = Some 0 \<longrightarrow> f_energy f = 5 / 10) \<and>
      (r_danceability r = Some 0 \<longrightarrow> f_danceability f = 5 / 10)) \<and>
   combineAudioFeatures rk rm a (Data (d\<lparr>ab_bpm := Some 0\<rparr>)) c =
     combineAudioFeatures rk rm a (Data (d\<lparr>ab_bpm := None\<rparr>)) c \<and>
   combineAudioFeatures rk rm a (Data (d\<lparr>ab_energy := Some 0\<rparr>)) c =
     combineAudioFeatures rk rm a (Data (d\<lparr>ab_energy := None\<rparr>)) c \<and>
   combineAudioFeatures rk rm a (Data (d\<lparr>ab_danceability := Some 0\<rparr>)) c =
     combineAudioFeatures rk rm a (Data (d\<lparr>ab_danceability := None\<rparr>)) c \<and>
   combineAudioFeatures rk rm a b (Data (e\<lparr>bp_bpm := Some 0\<rparr>)) =
     combineAudioFeatures rk rm a b (Data (e\<lparr>bp_bpm := None\<rparr>)) \<and>
   combineAudioFeatures rk rm (Data (l\<lparr>lf_estimatedEnergy := Some 0\<rparr>)) b c =
     combineAudioFeatures rk rm (Data (l\<lparr>lf_estimatedEnergy := None\<rparr>)) b c"
proof -
  have p1: "process_result (r\<lparr>r_bpm := Some 0\<rparr>) = process_result (r\<lparr>r_bpm := None\<rparr>)"
    and p2: "process_result (r\<lparr>r_energy := Some 0\<rparr>) = process_result (r\<lparr>r_energy := None\<rparr>)"
    and p3: "process_result (r\<lparr>r_danceability := Some 0\<rparr>) =
      process_result (r\<lparr>r_danceability := None\<rparr>)"
    by (simp_all add: process_result_def Let_def split: option.splits)
  have p4: "process_result r = Some f \<longrightarrow>
      (r_bpm r = Some 0 \<longrightarrow> f_bpm f = 120) \<and>
      (r_energy r = Some 0 \<longrightarrow> f_energy f = 5 / 10) \<and>
      (r_danceability r = Some 0 \<longrightarrow> f_danceability f = 5 / 10)"
    by (auto simp: process_result_def Let_def split: option.splits)
  have m1: "merge_acousticbrainz rk rm (Data (d\<lparr>ab_bpm := Some 0\<rparr>)) st =
      merge_acousticbrainz rk rm (Data (d\<lparr>ab_bpm := None\<rparr>)) st"
    and m2: "merge_acousticbrainz rk rm (Data (d\<lparr>ab_energy := Some 0\<rparr>)) st =
      merge_acousticbrainz rk rm (Data (d\<lparr>ab_energy := None\<rparr>)) st"
    and m3: "merge_acousticbrainz rk rm (Data (d\<lparr>ab_danceability := Some 0\<rparr>)) st =
      merge_acousticbrainz rk rm (Data (d\<lparr>ab_danceability := None\<rparr>)) st" for st
    by (simp_all add: merge_acousticbrainz_def Let_def split: prod.splits option.splits)
  have m4: "merge_beatport (Data (e\<lparr>bp_bpm := Some 0\<rparr>)) st =
      merge_beatport (Data (e\<lparr>bp_bpm := None\<rparr>)) st" for st
    by (simp add: merge_beatport_def Let_def split: prod.splits option.splits)
  have m5: "merge_lastfm (Data (l\<lparr>lf_estimatedEnergy := Some 0\<rparr>)) st =
      merge_lastfm (Data (l\<lparr>lf_estimatedEnergy := None\<rparr>)) st" for st
    by (simp add: merge_lastfm_def Let_def split: prod.splits option.splits)
  show ?thesis
    unfolding combineAudioFeatures_def m1 m2 m3 m4 m5 using p1 p2 p3 p4 by blast
qed

theorem zero_is_missing_witness:
  "process_result
     \<lparr>r_track = Some \<lparr>t_id = ''4uLU6hMCjMI75M1A2tKUQC'', t_name = ''Song'', t_artists = Some [''Artist'']\<rparr>,
      r_bpm = Some 0, r_key = Some (KNum 9), r_mode = Some 0, r_energy = Some 0,
      r_danceability = Some 0, r_confidence = 8 / 10, r_sources = [''acousticbrainz'']\<rparr> \<noteq> None \<and>
   f_bpm (the (process_result
     \<lparr>r_track = Some \<lparr>t_id = ''4uLU6hMCjMI75M1A2tKUQC'', t_name = ''Song'', t_artists = Some [''Artist'']\<rparr>,
      r_bpm = Some 0, r_key = Some (KNum 9), r_mode = Some 0, r_energy = Some 0,
      r_danceability = Some 0, r_confidence = 8 / 10, r_sources = [''acousticbrainz'']\<rparr>)) = 120 \<and>
   f_energy (the (process_result
     \<lparr>r_track = Some \<lparr>t_id = ''4uLU6hMCjMI75M1A2tKUQC'', t_name = ''Song'', t_artists = Some [''Artist'']\<rparr>,
      r_bpm = Some 0, r_key = Some (KNum 9), r_mode = Some 0, r_energy = Some 0,
      r_danceability = Some 0, r_confidence = 8 / 10, r_sources = [''acousticbrainz'']\<rparr>)) = 5 / 10"
proof -
  let ?r = "\<lparr>r_track = Some \<lparr>t_id = ''4uLU6hMCjMI75M1A2tKUQC'', t_name = ''Song'', t_artists = Some [''Artist'']\<rparr>,
      r_bpm = Some 0, r_key = Some (KNum 9), r_mode = Some 0, r_energy = Some 0,
      r_danceability = Some 0, r_confidence = 8 / 10, r_sources = [''acousticbrainz'']\<rparr>"
  obtain f where f: "process_result ?r = Some f"
    by (simp add: process_result_def Let_def)
  from zero_is_missing[of ?r f] f have "f_bpm f = 120 \<and> f_energy f = 5 / 10"
    by simp
  with f show ?thesis by simp
qed

section \<open>Properties of the batch orchestrator\<close>

lemma batch_iteration_cases:
  "batch_iteration w i track results =
     (if accepted w i track
      then results @
        [batch_entry track
           (getAlternativeAudioFeatures w i (projr (first_artist_name track)) (t_name track)
              (Some (t_id track)))]
      else results)"
  by (cases "first_artist_name track")
    (simp_all add: batch_iteration_def analyze_track_def accepted_def merged_confidence_def
      Let_def)

lemma batch_iteration_append:
  "batch_iteration w i track results = results @ batch_iteration w i track []"
  by (simp add: batch_iteration_cases)

lemma batch_iteration_length: "length (batch_iteration w i track []) \<le> 1"
  by (simp add: batch_iteration_cases)

lemma batch_loop_returns:
  "callback_returns cb \<Longrightarrow>
     batch_loop w cb tracks i results =
       Inr (results @
            concat (map (\<lambda>j. batch_iteration w j (tracks ! j) []) [i ..< length tracks]))"
proof (induction w cb tracks i results rule: batch_loop.induct)
  case (1 w cb tracks i results)
  have progress: "report_progress cb i (length tracks) (tracks ! i) = None"
    using "1.prems" by (auto simp: report_progress_def callback_returns_def split: option.splits)
  show ?case
  proof (cases "i < length tracks")
    case True
    then have "batch_loop w cb tracks i results =
        batch_loop w cb tracks (i + 1) (batch_iteration w i (tracks ! i) results)"
      by (subst batch_loop.simps) (simp add: progress)
    also have "\<dots> = Inr (batch_iteration w i (tracks ! i) results @
        concat (map (\<lambda>j. batch_iteration w j (tracks ! j) []) [i + 1 ..< length tracks]))"
      using "1.IH"[OF True progress "1.prems"] .
    also have "\<dots> = Inr (results @
        concat (map (\<lambda>j. batch_iteration w j (tracks ! j) []) [i ..< length tracks]))"
      using True
      by (subst batch_iteration_append) (simp add: upt_conv_Cons)
    finally show ?thesis .
  next
    case False
    then show ?thesis
      by (subst batch_loop.simps) simp
  qed
qed

lemma batch_returns:
  assumes "callback_returns cb"
  shows "batchAnalyzeAlternativeSources w tracks cb =
           Inr (concat (map (\<lambda>j. batch_iteration w j (tracks ! j) []) [0 ..< length tracks]))"
  by (simp add: batchAnalyzeAlternativeSources_def batch_loop_returns[OF assms])

lemma concat_iterations_tracks:
  "map r_track (concat (map (\<lambda>j. batch_iteration w j (tracks ! j) []) js)) =
     map (\<lambda>j. Some (tracks ! j)) (filter (\<lambda>j. accepted w j (tracks ! j)) js)"
  by (induction js) (simp_all add: batch_iteration_cases batch_entry_def)

lemma concat_iterations_length:
  "length (concat (map (\<lambda>j. batch_iteration w j (tracks ! j) []) js)) =
     length (filter (\<lambda>j. accepted w j (tracks ! j)) js)"
  by (induction js) (simp_all add: batch_iteration_cases)

lemma all_fail_not_accepted:
  assumes "adapters_all_fail w i track"
  shows "\<not> accepted w i track"
  using assms
  by (cases "first_artist_name track")
    (simp_all add: adapters_all_fail_def accepted_def merged_confidence_def
      getAlternativeAudioFeatures_def Let_def all_failed_confidence)

text \<open>
  C6: a track enters the batch result exactly when its merged confidence is above 0.2.
  One iteration either leaves the result list as it is or appends one entry, for this
  track and with that confidence; with a confidence of at most 0.2 the list is left as
  it is; three failing adapter results give confidence 0 and the track is left out. When
  the progress callback returns, the whole batch returns the accepted tracks, in input
  order.
\<close>

theorem threshold_inclusion:
  "(batch_iteration w i track results \<noteq> results \<longleftrightarrow> accepted w i track) \<and>
   (accepted w i track \<longleftrightarrow> (\<exists>conf. merged_confidence w i track = Some conf \<and> conf > 2 / 10)) \<and>
   (accepted w i track \<longrightarrow>
      (\<exists>e. batch_iteration w i track results = results @ [e] \<and> r_track e = Some track \<and>
           merged_confidence w i track = Some (r_confidence e))) \<and>
   (\<forall>conf. merged_confidence w i track = Some conf \<and> conf \<le> 2 / 10 \<longrightarrow>
      batch_iteration w i track results = results) \<and>
   (\<not> succeeded a \<and> \<not> succeeded b \<and> \<not> succeeded c \<longrightarrow>
      c_confidence (combineAudioFeatures rk rm a b c) = 0) \<and>
   (adapters_all_fail w i track \<longrightarrow> batch_iteration w i track results = results) \<and>
   (callback_returns cb \<longrightarrow>
      (\<exists>rs. batchAnalyzeAlternativeSources w tracks cb = Inr rs \<and>
            map r_track rs =
              map (\<lambda>j. Some (tracks ! j))
                (filter (\<lambda>j. accepted w j (tracks ! j)) [0 ..< length tracks])))"
proof -
  have "batch_iteration w i track results \<noteq> results \<longleftrightarrow> accepted w i track"
    by (simp add: batch_iteration_cases)
  moreover have "accepted w i track \<longleftrightarrow>
      (\<exists>conf. merged_confidence w i track = Some conf \<and> conf > 2 / 10)"
    by (simp add: accepted_def split: option.splits)
  moreover have "accepted w i track \<longrightarrow>
      (\<exists>e. batch_iteration w i track results = results @ [e] \<and> r_track e = Some track \<and>
           merged_confidence w i track = Some (r_confidence e))"
    by (cases "first_artist_name track")
      (simp_all add: batch_iteration_cases batch_entry_def accepted_def merged_confidence_def)
  moreover have "\<forall>conf. merged_confidence w i track = Some conf \<and> conf \<le> 2 / 10 \<longrightarrow>
      batch_iteration w i track results = results"
    by (simp add: batch_iteration_cases accepted_def)
  moreover have "\<not> succeeded a \<and> \<not> succeeded b \<and> \<not> succeeded c \<longrightarrow>
      c_confidence (combineAudioFeatures rk rm a b c) = 0"
    by (simp add: all_failed_confidence)
  moreover have "adapters_all_fail w i track \<longrightarrow> batch_iteration w i track results = results"
    using all_fail_not_accepted by (simp add: batch_iteration_cases)
  moreover have "callback_returns cb \<longrightarrow>
      (\<exists>rs. batchAnalyzeAlternativeSources w tracks cb = Inr rs \<and>
            map r_track rs =
              map (\<lambda>j. Some (tracks ! j))
                (filter (\<lambda>j. accepted w j (tracks ! j)) [0 ..< length tracks]))"
    by (simp add: batch_returns concat_iterations_tracks)
  ultimately show ?thesis by blast
qed

theorem threshold_inclusion_witness:
  "accepted example_world 0 (example_track ''one'') \<and>
   (\<exists>e. batch_iteration example_world 0 (example_track ''one'') [] = [] @ [e] \<and>
        r_track e = Some (example_track ''one'') \<and>
        merged_confidence example_world 0 (example_track ''one'') = Some (r_confidence e)) \<and>
   adapters_all_fail example_world 2 (example_track ''three'') \<and>
   batch_iteration example_world 2 (example_track ''three'') [] = [] \<and>
   (\<exists>rs. batchAnalyzeAlternativeSources example_world example_tracks None = Inr rs \<and>
         map r_track rs =
           map (\<lambda>j. Some (example_tracks ! j))
             (filter (\<lambda>j. accepted example_world j (example_tracks ! j))
                [0 ..< length example_tracks]))"
proof -
  have a: "accepted example_world 0 (example_track ''one'')"
    by code_simp
  have f: "adapters_all_fail example_world 2 (example_track ''three'')"
    by code_simp
  have c: "callback_returns None"
    by (simp add: callback_returns_def)
  show ?thesis
    using a f c
      threshold_inclusion[of example_world 0 "example_track ''one''" "[]" _ _ _ _ _ None example_tracks]
      threshold_inclusion[of example_world 2 "example_track ''three''" "[]" _ _ _ _ _ None example_tracks]
    by blast
qed

text \<open>
  C8: when the progress callback returns, the batch returns a list (it does not raise)
  that is at most as long as the input: an iteration whose analysis throws leaves the
  result list as it is, and every later track still gets its iteration. When the
  adapters of each third track (positions 3, 6, ...; there is one) all fail, the list is
  shorter than the input.
\<close>

theorem batch_never_raises:
  assumes "callback_returns cb"
  shows "\<exists>rs. batchAnalyzeAlternativeSources w tracks cb = Inr rs \<and>
           rs = concat (map (\<lambda>j. batch_iteration w j (tracks ! j) []) [0 ..< length tracks]) \<and>
           length rs \<le> length tracks \<and>
           ((\<exists>e. analyze_track w i track results = Inl e) \<longrightarrow>
              batch_iteration w i track results = results) \<and>
           (3 \<le> length tracks \<and>
            (\<forall>j < length tracks. j mod 3 = 2 \<longrightarrow> adapters_all_fail w j (tracks ! j)) \<longrightarrow>
              length rs < length tracks)"
proof -
  let ?rs = "concat (map (\<lambda>j. batch_iteration w j (tracks ! j) []) [0 ..< length tracks])"
  let ?ok = "\<lambda>j. accepted w j (tracks ! j)"
  have len: "length ?rs = length (filter ?ok [0 ..< length tracks])"
    by (rule concat_iterations_length)
  have le: "length ?rs \<le> length tracks"
    unfolding len using length_filter_le[of ?ok "[0 ..< length tracks]"] by simp
  have skip: "(\<exists>e. analyze_track w i track results = Inl e) \<longrightarrow>
      batch_iteration w i track results = results"
    by (auto simp: batch_iteration_def)
  have less: "length ?rs < length tracks"
    if "3 \<le> length tracks"
      and "\<forall>j < length tracks. j mod 3 = 2 \<longrightarrow> adapters_all_fail w j (tracks ! j)"
  proof -
    from that have "adapters_all_fail w 2 (tracks ! 2)" by simp
    then have "\<not> ?ok 2" by (rule all_fail_not_accepted)
    moreover have "2 \<in> set [0 ..< length tracks]"
      using that(1) by simp
    ultimately have "length (filter ?ok [0 ..< length tracks]) < length [0 ..< length tracks]"
      by (rule length_filter_less[rotated])
    then show ?thesis
      unfolding len by simp
  qed
  show ?thesis
    using batch_returns[OF assms, of w tracks] le skip less by blast
qed

theorem batch_never_raises_witness:
  "\<exists>rs. batchAnalyzeAlternativeSources example_world example_tracks None = Inr rs \<and>
        length rs < length example_tracks"
proof -
  have c: "callback_returns None"
    by (simp add: callback_returns_def)
  have three: "3 \<le> length example_tracks"
    by (simp add: example_tracks_def)
  have fail: "\<forall>j < length example_tracks. j mod 3 = 2 \<longrightarrow>
      adapters_all_fail example_world j (example_tracks ! j)"
    by (simp add: adapters_all_fail_def example_world_def succeeded_def
        split: sum.splits)
  show ?thesis
    using batch_never_raises[OF c, of example_world example_tracks] three fail by blast
qed

section \<open>Properties of the harmonic grouper\<close>

lemma partition_of_snoc:
  "partition_of k (seen @ [t]) =
     (if f_camelotKey t = k then partition_of k seen @ [t] else partition_of k seen)"
  by (simp add: partition_of_def)

lemma group_track_step:
  assumes "groups_of seen keyGroups" and "group_track t keyGroups = Inr keyGroups'"
  shows "groups_of (seen @ [t]) keyGroups'"
proof -
  let ?k = "f_camelotKey t"
  from assms(1) have d: "distinct (map fst keyGroups)"
    and m: "\<And>k. map_of keyGroups k =
      (if partition_of k seen = [] then None else Some (partition_of k seen))"
    by (simp_all add: groups_of_def)
  from assms(2) have kg': "keyGroups' =
      AList.update ?k (partition_of ?k seen @ [t]) keyGroups"
    using m[of ?k]
    by (auto simp: group_track_def split: if_splits option.splits)
  have "distinct (map fst keyGroups')"
    unfolding kg' using d by (rule distinct_update)
  moreover have "map_of keyGroups' k =
      (if partition_of k (seen @ [t]) = [] then None else Some (partition_of k (seen @ [t])))"
    for k
    unfolding kg' by (simp add: update_conv' m partition_of_snoc)
  ultimately show ?thesis
    by (simp add: groups_of_def)
qed

lemma group_tracks_groups:
  "groups_of seen keyGroups \<Longrightarrow> group_tracks ts keyGroups = Inr keyGroups' \<Longrightarrow>
     groups_of (seen @ ts) keyGroups'"
proof (induction ts arbitrary: seen keyGroups)
  case Nil
  then show ?case by simp
next
  case (Cons t ts)
  from Cons.prems(2) obtain kg1 where s: "group_track t keyGroups = Inr kg1"
    and r: "group_tracks ts kg1 = Inr keyGroups'"
    by (auto split: sum.splits)
  from Cons.IH[OF group_track_step[OF Cons.prems(1) s] r] show ?case
    by simp
qed

lemma group_tracks_partitions:
  assumes "group_tracks tracks [] = Inr keyGroups" and "(k, g) \<in> set keyGroups"
  shows "g = partition_of k tracks"
proof -
  have "groups_of [] []"
    by (simp add: groups_of_def partition_of_def)
  from group_tracks_groups[OF this assms(1)] have g: "groups_of tracks keyGroups"
    by simp
  then have "distinct (map fst keyGroups)"
    by (simp add: groups_of_def)
  then have "map_of keyGroups k = Some g"
    using assms(2) by (rule map_of_is_SomeI)
  moreover have "map_of keyGroups k =
      (if partition_of k tracks = [] then None else Some (partition_of k tracks))"
    using g by (simp add: groups_of_def)
  ultimately show ?thesis
    by (simp split: if_splits)
qed

lemma group_tracks_returns:
  "\<forall>t \<in> set ts. f_camelotKey t \<notin> set object_prototype_names \<Longrightarrow>
     \<exists>keyGroups'. group_tracks ts keyGroups = Inr keyGroups'"
proof (induction ts arbitrary: keyGroups)
  case Nil
  then show ?case by simp
next
  case (Cons t ts)
  then have "f_camelotKey t \<notin> set object_prototype_names"
    by simp
  then have "\<exists>kg1. group_track t keyGroups = Inr kg1"
    by (cases "map_of keyGroups (f_camelotKey t)") (simp_all add: group_track_def)
  then obtain kg1 where "group_track t keyGroups = Inr kg1" ..
  moreover have "\<exists>keyGroups'. group_tracks ts kg1 = Inr keyGroups'"
    using Cons.prems by (intro Cons.IH) simp
  ultimately show ?case by simp
qed

lemma Object_entries_set: "set (Object_entries obj) = set obj"
  by (auto simp: Object_entries_def)

lemma list_all_update:
  "P (k, v) \<Longrightarrow> list_all P al \<Longrightarrow> list_all P (AList.update k v al)"
  by (induction al) auto

lemma make_playlist_ok:
  assumes "2 \<le> length speedTracks"
    and "3 \<le> length (partition_of k analyzedTracks)" and "k \<noteq> ''Unknown''"
    and "set speedTracks \<subseteq> set (partition_of k analyzedTracks)"
  shows "playlist_ok analyzedTracks (k @ ''-'' @ speed, make_playlist k speed speedTracks)"
  using assms by (simp add: playlist_ok_def make_playlist_def)

lemma add_band_ok:
  assumes "list_all (playlist_ok analyzedTracks) playlists"
    and "3 \<le> length (partition_of k analyzedTracks)" and "k \<noteq> ''Unknown''"
    and "set (snd band) \<subseteq> set (partition_of k analyzedTracks)"
  shows "list_all (playlist_ok analyzedTracks) (add_band k band playlists)"
proof (cases "2 \<le> length (snd band)")
  case True
  have "list_all (playlist_ok analyzedTracks)
      (AList.update (k @ ''-'' @ fst band) (make_playlist k (fst band) (snd band)) playlists)"
    using make_playlist_ok[OF True assms(2-4)] assms(1) by (rule list_all_update)
  then show ?thesis
    using True by (simp only: add_band_def case_prod_beta if_True)
next
  case False
  then show ?thesis
    using assms(1) by (simp only: add_band_def case_prod_beta if_False)
qed

lemma fold_add_band_ok:
  assumes "3 \<le> length (partition_of k analyzedTracks)" and "k \<noteq> ''Unknown''"
  shows "list_all (playlist_ok analyzedTracks) playlists \<Longrightarrow>
     \<forall>band \<in> set bands. set (snd band) \<subseteq> set (partition_of k analyzedTracks) \<Longrightarrow>
     list_all (playlist_ok analyzedTracks) (fold (add_band k) bands playlists)"
proof (induction bands arbitrary: playlists)
  case Nil
  then show ?case by simp
next
  case (Cons band bands)
  have "list_all (playlist_ok analyzedTracks) (add_band k band playlists)"
    using Cons.prems by (intro add_band_ok assms) simp_all
  then show ?case
    using Cons.prems(2) by (simp add: Cons.IH)
qed

lemma add_key_group_ok:
  assumes "list_all (playlist_ok analyzedTracks) playlists"
    and "snd entry = partition_of (fst entry) analyzedTracks"
  shows "list_all (playlist_ok analyzedTracks) (add_key_group entry playlists)"
proof (cases entry)
  case (Pair k g)
  with assms(2) have g: "g = partition_of k analyzedTracks" by simp
  show ?thesis
  proof (cases "3 \<le> length g \<and> k \<noteq> ''Unknown''")
    case True
    have "\<forall>band \<in> set (bpmRanges (sort_key f_bpm g)).
        set (snd band) \<subseteq> set (partition_of k analyzedTracks)"
      by (auto simp: bpmRanges_def g)
    with True assms(1) show ?thesis
      unfolding Pair add_key_group_def
      by (simp add: fold_add_band_ok g)
  next
    case False
    then show ?thesis
      using assms(1) Pair by (auto simp: add_key_group_def)
  qed
qed

lemma fold_add_key_group_ok:
  "list_all (playlist_ok analyzedTracks) playlists \<Longrightarrow>
   \<forall>entry \<in> set entries. snd entry = partition_of (fst entry) analyzedTracks \<Longrightarrow>
   list_all (playlist_ok analyzedTracks) (fold add_key_group entries playlists)"
proof (induction entries arbitrary: playlists)
  case Nil
  then show ?case by simp
next
  case (Cons entry entries)
  then show ?case
    by (simp add: add_key_group_ok)
qed

lemma createDJPlaylists_ok:
  assumes "createDJPlaylists analyzedTracks = Inr playlists"
  shows "list_all (playlist_ok analyzedTracks) playlists"
proof -
  from assms obtain keyGroups where g: "group_tracks analyzedTracks [] = Inr keyGroups"
    and p: "playlists = fold add_key_group (Object_entries keyGroups) []"
    by (auto simp: createDJPlaylists_def split: sum.splits)
  have "\<forall>entry \<in> set (Object_entries keyGroups).
      snd entry = partition_of (fst entry) analyzedTracks"
    using group_tracks_partitions[OF g] by (auto simp: Object_entries_set)
  then show ?thesis
    unfolding p by (intro fold_add_key_group_ok) simp_all
qed

lemma camelot_values:
  "list_all (\<lambda>k. getCamelotKey (KNum k) (Some 1) \<in> set wheel_positions \<and>
                  getCamelotKey (KNum k) (Some 0) \<in> set wheel_positions) [0 ..< 12]"
  by code_simp

lemma wheel_position_names:
  "list_all (\<lambda>s. s \<notin> set object_prototype_names \<and> s \<noteq> ''Unknown'') wheel_positions"
  by code_simp

lemma getCamelotKey_range:
  "getCamelotKey key mode = ''Unknown'' \<or> getCamelotKey key mode \<in> set wheel_positions"
proof (cases "\<exists>k<12. key = KNum k")
  case True
  then obtain k where k: "k < 12" "key = KNum k" by blast
  then have "k \<in> set [0 ..< 12]" by simp
  with camelot_values
  have "getCamelotKey (KNum k) (Some 1) \<in> set wheel_positions \<and>
        getCamelotKey (KNum k) (Some 0) \<in> set wheel_positions"
    unfolding list_all_iff by (rule bspec)
  then have "getCamelotKey (KNum k) mode \<in> set wheel_positions"
    by (subst getCamelotKey_mode) (simp split: if_splits)
  then show ?thesis using k by simp
next
  case False
  then show ?thesis
    by (simp add: getCamelotKey_unknown_iff)
qed

lemma getCamelotKey_not_inherited:
  "getCamelotKey key mode \<notin> set object_prototype_names"
proof -
  have "''Unknown'' \<notin> set object_prototype_names"
    by (simp add: object_prototype_names_def)
  moreover have "s \<notin> set object_prototype_names" if "s \<in> set wheel_positions" for s
    using wheel_position_names that unfolding list_all_iff by blast
  ultimately show ?thesis
    using getCamelotKey_range[of key mode] by metis
qed

lemma processed_camelotKey:
  assumes "f \<in> set (processAlternativeAnalysis results)"
  shows "\<exists>key mode. f_camelotKey f = getCamelotKey key mode"
proof -
  from assms obtain r where r: "process_result r = Some f"
    by (auto simp: processAlternativeAnalysis_map_filter List.map_filter_def)
  then obtain track key where "r_track r = Some track" "r_key r = Some key"
    by (auto simp: process_result_def split: option.splits)
  with r have "f_camelotKey f = getCamelotKey key (r_mode r)"
    by (auto simp: process_result_def Let_def)
  then show ?thesis by blast
qed

lemma createDJPlaylists_returns:
  assumes "\<forall>t \<in> set analyzedTracks. f_camelotKey t \<notin> set object_prototype_names"
  shows "\<exists>playlists. createDJPlaylists analyzedTracks = Inr playlists"
proof -
  from group_tracks_returns[OF assms, of "[]"] obtain keyGroups
    where "group_tracks analyzedTracks [] = Inr keyGroups" ..
  then show ?thesis
    by (simp add: createDJPlaylists_def)
qed

text \<open>
  C7: every playlist that the grouper emits has at least 2 tracks, belongs to a wheel
  position other than ``Unknown'' whose partition (all features of that position, before
  the split into tempo bands) has at least 3 members, and takes its tracks from that
  partition; so a partition of exactly 2 features yields no playlist, whatever their
  tempos. On the features that the per-track processing produces the grouper returns.
\<close>

theorem playlists_minimum_sizes:
  "(\<exists>ps. createDJPlaylists (processAlternativeAnalysis results) = Inr ps) \<and>
   (createDJPlaylists analyzedTracks = Inr playlists \<and> (key, p) \<in> set playlists \<longrightarrow>
      2 \<le> length (pl_tracks p) \<and>
      pl_camelotKey p \<noteq> ''Unknown'' \<and>
      3 \<le> length (partition_of (pl_camelotKey p) analyzedTracks) \<and>
      set (pl_tracks p) \<subseteq> set (partition_of (pl_camelotKey p) analyzedTracks) \<and>
      key = pl_camelotKey p @ ''-'' @ pl_bpmRange p) \<and>
   (createDJPlaylists analyzedTracks = Inr playlists \<and>
    length (partition_of k analyzedTracks) = 2 \<longrightarrow>
      \<not> (\<exists>key p. (key, p) \<in> set playlists \<and> pl_camelotKey p = k))"
proof -
  have ret: "\<exists>ps. createDJPlaylists (processAlternativeAnalysis results) = Inr ps"
    using processed_camelotKey getCamelotKey_not_inherited
    by (intro createDJPlaylists_returns) metis
  have ok: "playlist_ok analyzedTracks (key, p)"
    if "createDJPlaylists analyzedTracks = Inr playlists" "(key, p) \<in> set playlists" for key p
    using createDJPlaylists_ok[OF that(1)] that(2) unfolding list_all_iff by (rule bspec)
  have sizes: "2 \<le> length (pl_tracks p) \<and>
      pl_camelotKey p \<noteq> ''Unknown'' \<and>
      3 \<le> length (partition_of (pl_camelotKey p) analyzedTracks) \<and>
      set (pl_tracks p) \<subseteq> set (partition_of (pl_camelotKey p) analyzedTracks) \<and>
      key = pl_camelotKey p @ ''-'' @ pl_bpmRange p"
    if "createDJPlaylists analyzedTracks = Inr playlists" "(key, p) \<in> set playlists" for key p
    using ok[OF that] by (simp add: playlist_ok_def)
  have two: "\<not> (\<exists>key p. (key, p) \<in> set playlists \<and> pl_camelotKey p = k)"
    if "createDJPlaylists analyzedTracks = Inr playlists"
      "length (partition_of k analyzedTracks) = 2"
  proof
    assume "\<exists>key p. (key, p) \<in> set playlists \<and> pl_camelotKey p = k"
    then obtain key p where "(key, p) \<in> set playlists" "pl_camelotKey p = k" by blast
    with sizes[OF that(1), of key p] that(2) show False by simp
  qed
  show ?thesis
    using ret sizes two by blast
qed

theorem playlists_minimum_sizes_witness:
  "createDJPlaylists
     [example_feature ''one'' 90, example_feature ''two'' 95, example_feature ''three'' 99] =
     Inr [(''11A-slow'', make_playlist ''11A'' ''slow''
            [example_feature ''one'' 90, example_feature ''two'' 95, example_feature ''three'' 99])] \<and>
   2 \<le> length (pl_tracks (make_playlist ''11A'' ''slow''
            [example_feature ''one'' 90, example_feature ''two'' 95, example_feature ''three'' 99])) \<and>
   3 \<le> length (partition_of ''11A''
            [example_feature ''one'' 90, example_feature ''two'' 95, example_feature ''three'' 99]) \<and>
   length (partition_of ''11A'' [example_feature ''one'' 90, example_feature ''two'' 95]) = 2 \<and>
   createDJPlaylists [example_feature ''one'' 90, example_feature ''two'' 95] = Inr []"
proof -
  let ?fs = "[example_feature ''one'' 90, example_feature ''two'' 95, example_feature ''three'' 99]"
  let ?p = "make_playlist ''11A'' ''slow'' ?fs"
  have c3: "createDJPlaylists ?fs = Inr [(''11A-slow'', ?p)]"
    by code_simp
  have k: "pl_camelotKey ?p = ''11A''"
    by (simp add: make_playlist_def)
  have c2: "createDJPlaylists [example_feature ''one'' 90, example_feature ''two'' 95] = Inr []"
    by code_simp
  have l2: "length (partition_of ''11A'' [example_feature ''one'' 90, example_feature ''two'' 95]) = 2"
    by code_simp
  from playlists_minimum_sizes[of _ ?fs "[(''11A-slow'', ?p)]" "''11A-slow''" ?p] c3
  have "2 \<le> length (pl_tracks ?p) \<and> 3 \<le> length (partition_of (pl_camelotKey ?p) ?fs)"
    by simp
  with c3 c2 l2 k show ?thesis
    by simp
qed

lemma wheel_position_not_inherited:
  assumes "k \<in> set wheel_positions"
  shows "k \<notin> set object_prototype_names \<and> k \<noteq> ''Unknown''"
  using wheel_position_names assms unfolding list_all_iff by blast

lemma Object_entries_single: "Object_entries [(k, g)] = [(k, g)]"
  by (simp add: Object_entries_def)

text \<open>
  C9: five features of one wheel position \<open>k\<close> with the tempos 90, 95, 105, 110, 135
  give exactly two playlists: ``\<open>k\<close>-slow'' with the features of tempo 90 and 95, in
  this order, and ``\<open>k\<close>-medium'' with those of tempo 105 and 110; the fast band, with
  the one feature of tempo 135, gives none.
\<close>

theorem five_features_two_playlists:
  assumes "k \<in> set wheel_positions"
    and "map f_camelotKey [f1, f2, f3, f4, f5] = [k, k, k, k, k]"
    and "map f_bpm [f1, f2, f3, f4, f5] = [90, 95, 105, 110, 135]"
  shows "createDJPlaylists [f1, f2, f3, f4, f5] =
           Inr [(k @ ''-slow'', make_playlist k ''slow'' [f1, f2]),
                (k @ ''-medium'', make_playlist k ''medium'' [f3, f4])] \<and>
         pl_tracks (make_playlist k ''slow'' [f1, f2]) = [f1, f2] \<and>
         pl_tracks (make_playlist k ''medium'' [f3, f4]) = [f3, f4] \<and>
         pl_bpmRange (make_playlist k ''slow'' [f1, f2]) = ''slow'' \<and>
         pl_bpmRange (make_playlist k ''medium'' [f3, f4]) = ''medium''"
proof -
  from assms(1) have k: "k \<notin> set object_prototype_names" "k \<noteq> ''Unknown''"
    using wheel_position_not_inherited by blast+
  from assms(2) have keys: "f_camelotKey f1 = k" "f_camelotKey f2 = k" "f_camelotKey f3 = k"
    "f_camelotKey f4 = k" "f_camelotKey f5 = k"
    by simp_all
  from assms(3) have bpms: "f_bpm f1 = 90" "f_bpm f2 = 95" "f_bpm f3 = 105" "f_bpm f4 = 110"
    "f_bpm f5 = 135"
    by simp_all
  have groups: "group_tracks [f1, f2, f3, f4, f5] [] = Inr [(k, [f1, f2, f3, f4, f5])]"
    using k(1) by (simp add: group_track_def keys)
  have sorted: "sort_key f_bpm [f1, f2, f3, f4, f5] = [f1, f2, f3, f4, f5]"
    by (simp add: bpms)
  have ranges: "bpmRanges [f1, f2, f3, f4, f5] =
      [(''slow'', [f1, f2]), (''medium'', [f3, f4]), (''fast'', [f5])]"
    by (simp add: bpmRanges_def bpms)
  have bands: "fold (add_band k) [(''slow'', [f1, f2]), (''medium'', [f3, f4]), (''fast'', [f5])] [] =
      [(k @ ''-slow'', make_playlist k ''slow'' [f1, f2]),
       (k @ ''-medium'', make_playlist k ''medium'' [f3, f4])]"
    by (simp add: add_band_def)
  have group: "add_key_group (k, [f1, f2, f3, f4, f5]) [] =
      fold (add_band k) (bpmRanges (sort_key f_bpm [f1, f2, f3, f4, f5])) []"
    unfolding add_key_group_def using k(2) by simp
  have "createDJPlaylists [f1, f2, f3, f4, f5] =
      Inr (fold add_key_group (Object_entries [(k, [f1, f2, f3, f4, f5])]) [])"
    by (simp only: createDJPlaylists_def groups sum.case)
  also have "\<dots> = Inr (add_key_group (k, [f1, f2, f3, f4, f5]) [])"
    by (simp only: Object_entries_single fold_simps id_apply comp_apply)
  also have "\<dots> = Inr [(k @ ''-slow'', make_playlist k ''slow'' [f1, f2]),
                        (k @ ''-medium'', make_playlist k ''medium'' [f3, f4])]"
    by (simp only: group sorted ranges bands)
  finally have "createDJPlaylists [f1, f2, f3, f4, f5] =
      Inr [(k @ ''-slow'', make_playlist k ''slow'' [f1, f2]),
           (k @ ''-medium'', make_playlist k ''medium'' [f3, f4])]" .
  moreover have "pl_tracks (make_playlist k ''slow'' [f1, f2]) = [f1, f2]"
    "pl_tracks (make_playlist k ''medium'' [f3, f4]) = [f3, f4]"
    by (simp_all add: make_playlist_def bpms)
  ultimately show ?thesis
    by (simp add: make_playlist_def)
qed

theorem five_features_two_playlists_witness:
  "map (\<lambda>e. (fst e, map f_bpm (pl_tracks (snd e))))
     (projr (createDJPlaylists
       [example_feature ''a'' 90, example_feature ''b'' 95, example_feature ''c'' 105,
        example_feature ''d'' 110, example_feature ''e'' 135])) =
     [(''11A-slow'', [90, 95]), (''11A-medium'', [105, 110])]"
proof -
  have "''11A'' \<in> set wheel_positions"
    by (simp add: wheel_positions_eval)
  from five_features_two_playlists[OF this, of "example_feature ''a'' 90"
      "example_feature ''b'' 95" "example_feature ''c'' 105" "example_feature ''d'' 110"
      "example_feature ''e'' 135"]
  show ?thesis
    by (simp add: example_feature_def)
qed

end
